theory Spec2Isabelle
  imports
    Complex_Main
    "HOL-Library.AList"
    "HOL-Library.Multiset"
    "HOL-Library.Char_ord"
    "HOL-Library.List_Lexorder"
    "HOL-Library.Product_Lexorder"
begin

section \<open>Values of the Python program\<close>

text \<open>
  The two scripts (\<^verbatim>\<open>network.py\<close> and \<^verbatim>\<open>syntax/visual.py\<close>) work on tables loaded by pandas.
  A table is modelled after loading: a list of rows, each row a record of cells.

  Python strings are lists of code points; the model uses \<^typ>\<open>string\<close>, so it covers the
  code points below 256.  Exceptions are values of \<open>exn\<close>; a computation that may raise
  has a result of type \<open>exn + 'a\<close>, with \<open>Inl\<close> for the exception.  \<open>ImportError m\<close> is
  the failed import of the module \<open>m\<close>.
\<close>

datatype exn = ValueError | TypeError | ImportError string | ZeroDivisionError | KeyError | OSError

text \<open>
  A Python float.  \<open>Finite q\<close> stands for the binary64 number nearest to the rational \<open>q\<close>:
  the rounding of the significand to 53 bits is not modelled, the overflow to infinity is
  (see \<open>round_overflow\<close>).
\<close>

datatype pyfloat = Finite rat | PInf | NInf | NaN

text \<open>
  A cell of a loaded table: \<open>NA\<close> is pandas' missing value (NaN), \<open>Str\<close> a text cell,
  \<open>Num\<close> an integer cell.  Other cell types (floats, booleans, timestamps) are not modelled.
\<close>

datatype cell = NA | Str string | Num int

definition bind :: "exn + 'a \<Rightarrow> ('a \<Rightarrow> exn + 'b) \<Rightarrow> exn + 'b" where
  "bind m f = (case m of Inl e \<Rightarrow> Inl e | Inr x \<Rightarrow> f x)"

text \<open>\<^verbatim>\<open>math.isfinite\<close>.\<close>

fun is_finite :: "pyfloat \<Rightarrow> bool" where
  "is_finite (Finite q) = True"
| "is_finite PInf = False"
| "is_finite NInf = False"
| "is_finite NaN = False"

section \<open>Python's string operations\<close>

text \<open>\<^verbatim>\<open>str.isspace\<close> on one code point below 256.\<close>

definition is_space :: "char \<Rightarrow> bool" where
  "is_space c = ((of_char c :: nat) \<in> set [9, 10, 11, 12, 13, 28, 29, 30, 31, 32, 133, 160])"

text \<open>\<^verbatim>\<open>s.strip()\<close>: leading and trailing whitespace removed.\<close>

definition strip :: "string \<Rightarrow> string" where
  "strip s = rev (dropWhile is_space (rev (dropWhile is_space s)))"

text \<open>
  \<^verbatim>\<open>s.split(sep)\<close> for a one-character separator, as a scan from the left: \<open>acc\<close> holds
  the current part, reversed.  The result always has at least one part.
\<close>

fun split_acc :: "char \<Rightarrow> string \<Rightarrow> string \<Rightarrow> string list" where
  "split_acc sep acc [] = [rev acc]"
| "split_acc sep acc (c # cs) =
     (if c = sep then rev acc # split_acc sep [] cs else split_acc sep (c # acc) cs)"

definition split_on :: "char \<Rightarrow> string \<Rightarrow> string list" where
  "split_on sep s = split_acc sep [] s"

section \<open>The builtin \<^verbatim>\<open>float\<close> on a string\<close>

text \<open>
  \<^verbatim>\<open>float(s)\<close> strips whitespace, checks the underscores (each one between two digits)
  and removes them, then reads an optional sign followed by \<^verbatim>\<open>inf\<close>, \<^verbatim>\<open>infinity\<close> or
  \<^verbatim>\<open>nan\<close> (in any case) or by a decimal number with an optional exponent.  Anything else
  raises \<^verbatim>\<open>ValueError\<close>.  A decimal number too large for binary64 gives an infinity.
\<close>

definition is_digit :: "char \<Rightarrow> bool" where
  "is_digit c = (c \<in> set ''0123456789'')"

definition digit_val :: "char \<Rightarrow> nat" where
  "digit_val c = of_char c - 48"

definition nat_of_digits :: "string \<Rightarrow> nat" where
  "nat_of_digits ds = foldl (\<lambda>n c. 10 * n + digit_val c) 0 ds"

definition lower :: "char \<Rightarrow> char" where
  "lower c = (let n = (of_char c :: nat) in if 65 \<le> n \<and> n \<le> 90 then char_of (n + 32) else c)"

text \<open>
  The underscore pass: \<open>prev\<close> is the character before, \<open>None\<close> at the start.  An
  underscore must follow a digit and be followed by a digit.
\<close>

fun remove_underscores :: "char option \<Rightarrow> string \<Rightarrow> string option" where
  "remove_underscores prev [] = (if prev = Some CHR ''_'' then None else Some [])"
| "remove_underscores prev (c # cs) =
     (if c = CHR ''_'' then
        (case prev of
           None \<Rightarrow> None
         | Some p \<Rightarrow> if is_digit p then remove_underscores (Some c) cs else None)
      else if prev = Some CHR ''_'' \<and> \<not> is_digit c then None
      else map_option ((#) c) (remove_underscores (Some c) cs))"

text \<open>Values of magnitude at least \<open>2^1024 - 2^970\<close> round to an infinity.\<close>

definition round_overflow :: "rat \<Rightarrow> pyfloat" where
  "round_overflow q =
     (if 2 ^ 1024 - 2 ^ 970 \<le> \<bar>q\<bar> then (if q < 0 then NInf else PInf) else Finite q)"

text \<open>The digits of an exponent, after its sign: at least one digit and nothing else.\<close>

definition exponent_digits :: "string \<Rightarrow> int option" where
  "exponent_digits ds =
     (if ds \<noteq> [] \<and> list_all is_digit ds then Some (int (nat_of_digits ds)) else None)"

fun exponent_signed :: "string \<Rightarrow> int option" where
  "exponent_signed [] = None"
| "exponent_signed (c # cs) =
     (if c = CHR ''-'' then map_option uminus (exponent_digits cs)
      else if c = CHR ''+'' then exponent_digits cs
      else exponent_digits (c # cs))"

text \<open>The exponent part, after the mantissa: empty, or \<^verbatim>\<open>e\<close>, an optional sign and digits.\<close>

fun parse_exponent :: "string \<Rightarrow> int option" where
  "parse_exponent [] = Some 0"
| "parse_exponent (c # r) =
     (if c = CHR ''e'' \<or> c = CHR ''E'' then exponent_signed r else None)"

definition scale10 :: "rat \<Rightarrow> int \<Rightarrow> rat" where
  "scale10 m e = (if 0 \<le> e then m * 10 ^ nat e else m / 10 ^ nat (- e))"

text \<open>
  An unsigned decimal number: the integer digits \<open>ip\<close>, an optional point with the fraction
  digits \<open>fp\<close>, then the exponent.  One of \<open>ip\<close> and \<open>fp\<close> must have a digit.
\<close>

definition parse_mantissa :: "string \<Rightarrow> string \<Rightarrow> string \<Rightarrow> rat option" where
  "parse_mantissa ip fp r =
     (if ip = [] \<and> fp = [] then None
      else map_option (scale10 (of_nat (nat_of_digits (ip @ fp)) / 10 ^ length fp))
             (parse_exponent r))"

fun parse_fraction :: "string \<Rightarrow> string \<Rightarrow> rat option" where
  "parse_fraction ip [] = parse_mantissa ip [] []"
| "parse_fraction ip (c # r) =
     (if c = CHR ''.'' then parse_mantissa ip (takeWhile is_digit r) (dropWhile is_digit r)
      else parse_mantissa ip [] (c # r))"

definition parse_number :: "string \<Rightarrow> rat option" where
  "parse_number s = parse_fraction (takeWhile is_digit s) (dropWhile is_digit s)"

text \<open>After the sign: \<^verbatim>\<open>inf\<close>, \<^verbatim>\<open>infinity\<close> and \<^verbatim>\<open>nan\<close> in any case, or a number.\<close>

definition float_unsigned :: "bool \<Rightarrow> string \<Rightarrow> exn + pyfloat" where
  "float_unsigned neg body =
     (if map lower body = ''inf'' \<or> map lower body = ''infinity''
      then Inr (if neg then NInf else PInf)
      else if map lower body = ''nan'' then Inr NaN
      else (case parse_number body of
              None \<Rightarrow> Inl ValueError
            | Some q \<Rightarrow> Inr (round_overflow (if neg then - q else q))))"

fun float_signed :: "string \<Rightarrow> exn + pyfloat" where
  "float_signed [] = float_unsigned False []"
| "float_signed (c # cs) =
     (if c = CHR ''-'' then float_unsigned True cs
      else if c = CHR ''+'' then float_unsigned False cs
      else float_unsigned False (c # cs))"

definition py_float :: "string \<Rightarrow> exn + pyfloat" where
  "py_float s =
     (case remove_underscores None (strip s) of
        None \<Rightarrow> Inl ValueError
      | Some t \<Rightarrow> float_signed t)"

section \<open>The coordinate parser\<close>

text \<open>
  The body of the \<^verbatim>\<open>try\<close> block of \<^verbatim>\<open>extract_coordinates\<close>: \<open>Inr (Some r)\<close> is
  \<^verbatim>\<open>return lat, lon\<close>, \<open>Inr None\<close> leaves the block without returning, \<open>Inl e\<close> raises.
\<close>

definition parse_parts :: "string list \<Rightarrow> exn + (pyfloat option \<times> pyfloat option) option" where
  "parse_parts parts =
     (if 2 \<le> length parts then
        bind (py_float (strip (parts ! 0))) (\<lambda>lat.
        bind (py_float (strip (parts ! 1))) (\<lambda>lon.
        Inr (Some (Some lat, Some lon))))
      else Inr None)"

definition try_block :: "string \<Rightarrow> exn + (pyfloat option \<times> pyfloat option) option" where
  "try_block s = parse_parts (split_on CHR '','' s)"

text \<open>
  \<^verbatim>\<open>extract_coordinates(coord_str)\<close>.  The handler catches \<^verbatim>\<open>ValueError\<close> and
  \<^verbatim>\<open>TypeError\<close>; any other exception of the block would leave the function.
\<close>

definition extract_coordinates :: "cell \<Rightarrow> exn + (pyfloat option \<times> pyfloat option)" where
  "extract_coordinates coord_str =
     (case coord_str of
        Str s \<Rightarrow>
          if s \<noteq> ''N/A'' \<and> CHR '','' \<in> set s then
            (case try_block s of
               Inr (Some r) \<Rightarrow> Inr r
             | Inr None \<Rightarrow> Inr (None, None)
             | Inl e \<Rightarrow> if e = ValueError \<or> e = TypeError then Inr (None, None) else Inl e)
          else Inr (None, None)
      | _ \<Rightarrow> Inr (None, None))"


section \<open>Tables and dictionaries\<close>

text \<open>
  A row of the sticker table and a row of the general table, with the columns the scripts
  read.  A Python \<^verbatim>\<open>dict\<close> is an association list in insertion order:
  \<^const>\<open>AList.update\<close> replaces the value of a key in place and appends a new key.
\<close>

record sticker_row =
  sticker_ID :: cell
  sticker_location :: cell
  sticker_location_coordinates :: cell

record general_row =
  organization :: cell
  topic :: cell
  sticker_id :: cell
  organization_location_coordinates :: cell

type_synonym coords = "pyfloat \<times> pyfloat"

type_synonym ('k, 'v) dict = "('k \<times> 'v) list"

text \<open>\<^verbatim>\<open>pd.notna\<close> on a cell.\<close>

definition notna :: "cell \<Rightarrow> bool" where
  "notna c = (c \<noteq> NA)"

text \<open>Python's \<^verbatim>\<open>==\<close> on cells: a missing value (NaN) equals nothing, not even itself.\<close>

definition py_eq :: "cell \<Rightarrow> cell \<Rightarrow> bool" where
  "py_eq a b = (a \<noteq> NA \<and> a = b)"

text \<open>\<^verbatim>\<open>str\<close> of a natural number and of an integer: the decimal numeral.\<close>

fun str_nat :: "nat \<Rightarrow> string" where
  "str_nat n =
     (if n < 10 then [''0123456789'' ! n]
      else str_nat (n div 10) @ [''0123456789'' ! (n mod 10)])"

definition str_int :: "int \<Rightarrow> string" where
  "str_int i = (if i < 0 then CHR ''-'' # str_nat (nat (- i)) else str_nat (nat i))"

text \<open>\<^verbatim>\<open>str(x)\<close> on a cell, also what an f-string puts for \<^verbatim>\<open>{x}\<close>.\<close>

fun py_str :: "cell \<Rightarrow> string" where
  "py_str (Str s) = s"
| "py_str (Num i) = str_int i"
| "py_str NA = ''nan''"

text \<open>
  \<^verbatim>\<open>df.drop_duplicates(subset=[column])\<close>: the rows in order, without those whose value in
  the column was seen in an earlier row.  pandas counts two missing values as duplicates.
\<close>

fun drop_duplicates_seen :: "('r \<Rightarrow> cell) \<Rightarrow> cell list \<Rightarrow> 'r list \<Rightarrow> 'r list" where
  "drop_duplicates_seen col seen [] = []"
| "drop_duplicates_seen col seen (row # rows) =
     (if col row \<in> set seen then drop_duplicates_seen col seen rows
      else row # drop_duplicates_seen col (col row # seen) rows)"

definition drop_duplicates :: "('r \<Rightarrow> cell) \<Rightarrow> 'r list \<Rightarrow> 'r list" where
  "drop_duplicates col df = drop_duplicates_seen col [] df"

section \<open>The location reconciler\<close>

text \<open>
  The loop that fills \<^verbatim>\<open>unique_points\<close> in \<^verbatim>\<open>create_simple_map\<close>, and with the same body
  \<^verbatim>\<open>sticker_points\<close> in \<^verbatim>\<open>create_expanded_map\<close>.  One iteration:
\<close>

definition add_point :: "sticker_row \<Rightarrow> (cell, coords) dict \<Rightarrow> exn + (cell, coords) dict" where
  "add_point row points =
     (if notna (sticker_location row) \<and> notna (sticker_location_coordinates row) then
        bind (extract_coordinates (sticker_location_coordinates row)) (\<lambda>r.
          case r of
            (Some lat, Some lon) \<Rightarrow> Inr (AList.update (sticker_location row) (lat, lon) points)
          | _ \<Rightarrow> Inr points)
      else Inr points)"

fun add_points :: "sticker_row list \<Rightarrow> (cell, coords) dict \<Rightarrow> exn + (cell, coords) dict" where
  "add_points [] points = Inr points"
| "add_points (row # rows) points = bind (add_point row points) (add_points rows)"

definition unique_points :: "sticker_row list \<Rightarrow> exn + (cell, coords) dict" where
  "unique_points sticker_df = add_points (drop_duplicates sticker_location sticker_df) []"

text \<open>
  What the specification says of one record: it resolves when name and coordinate field are
  present and the coordinate text parses.  Used to state the reconciler's result.
\<close>

definition resolved :: "sticker_row \<Rightarrow> coords option" where
  "resolved row =
     (if sticker_location row = NA \<or> sticker_location_coordinates row = NA then None
      else (case extract_coordinates (sticker_location_coordinates row) of
              Inr (Some lat, Some lon) \<Rightarrow> Some (lat, lon)
            | _ \<Rightarrow> None))"

text \<open>The entries of the records that resolve, in order.\<close>

definition entries :: "sticker_row list \<Rightarrow> (cell, coords) dict" where
  "entries rows =
     map (\<lambda>row. (sticker_location row, the (resolved row))) (filter (\<lambda>row. resolved row \<noteq> None) rows)"

section \<open>Organization records\<close>

text \<open>
  The dictionary stored for one organization in \<^verbatim>\<open>org_points\<close>; its keys \<^verbatim>\<open>coords\<close>,
  \<^verbatim>\<open>org_name\<close>, \<^verbatim>\<open>sticker_id\<close> and \<^verbatim>\<open>topic\<close> are the fields, prefixed.
\<close>

record org_data =
  d_coords :: coords
  d_org_name :: string
  d_sticker_id :: cell
  d_topic :: string

definition org_name_of :: "general_row \<Rightarrow> string" where
  "org_name_of row = (if notna (organization row) then py_str (organization row) else ''Unknown'')"

definition topic_of :: "general_row \<Rightarrow> string" where
  "topic_of row = (if notna (topic row) then py_str (topic row) else ''Unknown'')"

definition org_key_of :: "general_row \<Rightarrow> string" where
  "org_key_of row = org_name_of row @ ''_'' @ py_str (sticker_id row)"

definition org_record :: "general_row \<Rightarrow> coords \<Rightarrow> org_data" where
  "org_record row c =
     \<lparr>d_coords = c, d_org_name = org_name_of row, d_sticker_id = sticker_id row,
      d_topic = topic_of row\<rparr>"

text \<open>One iteration of the loop over the general table.\<close>

definition add_org :: "general_row \<Rightarrow> (string, org_data) dict \<Rightarrow> exn + (string, org_data) dict" where
  "add_org row orgs =
     (if notna (organization_location_coordinates row)
         \<and> organization_location_coordinates row \<noteq> Str ''N/A'' then
        bind (extract_coordinates (organization_location_coordinates row)) (\<lambda>r.
          case r of
            (Some lat, Some lon) \<Rightarrow>
              Inr (AList.update (org_key_of row) (org_record row (lat, lon)) orgs)
          | _ \<Rightarrow> Inr orgs)
      else Inr orgs)"

fun add_orgs :: "general_row list \<Rightarrow> (string, org_data) dict \<Rightarrow> exn + (string, org_data) dict" where
  "add_orgs [] orgs = Inr orgs"
| "add_orgs (row # rows) orgs = bind (add_org row orgs) (add_orgs rows)"

definition org_points :: "general_row list \<Rightarrow> exn + (string, org_data) dict" where
  "org_points general_df = add_orgs general_df []"

text \<open>
  What the specification says of one organization row: it resolves when the coordinate field
  is present, is not the sentinel and parses.
\<close>

definition org_resolved :: "general_row \<Rightarrow> coords option" where
  "org_resolved row =
     (if organization_location_coordinates row = NA
         \<or> organization_location_coordinates row = Str ''N/A'' then None
      else (case extract_coordinates (organization_location_coordinates row) of
              Inr (Some lat, Some lon) \<Rightarrow> Some (lat, lon)
            | _ \<Rightarrow> None))"

section \<open>The link resolver\<close>

text \<open>The dictionary appended to \<^verbatim>\<open>connections\<close>, its keys prefixed.\<close>

record connection =
  c_sticker_loc :: cell
  c_sticker_coords :: coords
  c_org_key :: string
  c_org_coords :: coords
  c_org_name :: string
  c_topic :: string

definition make_connection :: "cell \<Rightarrow> coords \<Rightarrow> string \<Rightarrow> org_data \<Rightarrow> connection" where
  "make_connection loc sc key od =
     \<lparr>c_sticker_loc = loc, c_sticker_coords = sc, c_org_key = key, c_org_coords = d_coords od,
      c_org_name = d_org_name od, c_topic = d_topic od\<rparr>"

text \<open>
  The inner loop, over the items of \<^verbatim>\<open>org_points\<close>, for one sticker row.  The test
  \<^verbatim>\<open>sticker_loc in sticker_points\<close> and the read \<^verbatim>\<open>sticker_points[sticker_loc]\<close> are one
  lookup.
\<close>

fun match_orgs ::
  "cell \<Rightarrow> cell \<Rightarrow> (cell, coords) dict \<Rightarrow> (string, org_data) dict \<Rightarrow> connection list
     \<Rightarrow> connection list" where
  "match_orgs sid loc points [] conns = conns"
| "match_orgs sid loc points ((key, od) # orgs) conns =
     match_orgs sid loc points orgs
       (if py_eq (d_sticker_id od) sid then
          (case map_of points loc of
             Some sc \<Rightarrow> conns @ [make_connection loc sc key od]
           | None \<Rightarrow> conns)
        else conns)"

text \<open>The outer loop, over all rows of the sticker table.\<close>

fun find_connections ::
  "sticker_row list \<Rightarrow> (cell, coords) dict \<Rightarrow> (string, org_data) dict \<Rightarrow> connection list
     \<Rightarrow> connection list" where
  "find_connections [] points orgs conns = conns"
| "find_connections (row # rows) points orgs conns =
     find_connections rows points orgs
       (match_orgs (sticker_ID row) (sticker_location row) points orgs conns)"

text \<open>
  The words of the specification: a sticker row and an organization record are linked when
  they share the linking identifier and the sticker's location name is in the location
  mapping.
\<close>

definition linked :: "(cell, coords) dict \<Rightarrow> sticker_row \<times> (string \<times> org_data) \<Rightarrow> bool" where
  "linked points p =
     (py_eq (d_sticker_id (snd (snd p))) (sticker_ID (fst p))
      \<and> map_of points (sticker_location (fst p)) \<noteq> None)"

definition connection_of :: "(cell, coords) dict \<Rightarrow> sticker_row \<times> (string \<times> org_data) \<Rightarrow> connection" where
  "connection_of points p =
     make_connection (sticker_location (fst p)) (the (map_of points (sticker_location (fst p))))
       (fst (snd p)) (snd (snd p))"

section \<open>The map center\<close>

text \<open>Float addition and division by a list length; infinities and NaN as in IEEE 754.\<close>

fun fadd :: "pyfloat \<Rightarrow> pyfloat \<Rightarrow> pyfloat" where
  "fadd (Finite a) (Finite b) = round_overflow (a + b)"
| "fadd NaN y = NaN"
| "fadd x NaN = NaN"
| "fadd PInf NInf = NaN"
| "fadd NInf PInf = NaN"
| "fadd PInf y = PInf"
| "fadd NInf y = NInf"
| "fadd x PInf = PInf"
| "fadd x NInf = NInf"

text \<open>\<^verbatim>\<open>sum(xs)\<close> starts from the integer 0.\<close>

definition py_sum :: "pyfloat list \<Rightarrow> pyfloat" where
  "py_sum xs = foldl fadd (Finite 0) xs"

fun fdiv_nat :: "pyfloat \<Rightarrow> nat \<Rightarrow> pyfloat" where
  "fdiv_nat (Finite a) n = Finite (a / of_nat n)"
| "fdiv_nat x n = x"

text \<open>\<^verbatim>\<open>sum(xs) / len(xs)\<close>: on the empty list this is \<^verbatim>\<open>0 / 0\<close>, which raises.\<close>

definition mean :: "pyfloat list \<Rightarrow> exn + pyfloat" where
  "mean xs = (if length xs = 0 then Inl ZeroDivisionError else Inr (fdiv_nat (py_sum xs) (length xs)))"

definition all_lats :: "(cell, coords) dict \<Rightarrow> (string, org_data) dict \<Rightarrow> pyfloat list" where
  "all_lats points orgs = map (\<lambda>(k, lat, lon). lat) points @ map (\<lambda>(k, od). fst (d_coords od)) orgs"

definition all_lons :: "(cell, coords) dict \<Rightarrow> (string, org_data) dict \<Rightarrow> pyfloat list" where
  "all_lons points orgs = map (\<lambda>(k, lat, lon). lon) points @ map (\<lambda>(k, od). snd (d_coords od)) orgs"

definition map_center :: "(cell, coords) dict \<Rightarrow> (string, org_data) dict \<Rightarrow> exn + coords" where
  "map_center points orgs =
     bind (mean (all_lats points orgs)) (\<lambda>center_lat.
     bind (mean (all_lons points orgs)) (\<lambda>center_lon.
     Inr (center_lat, center_lon)))"

section \<open>Messages, files and the libraries outside\<close>

text \<open>
  What a run leaves behind: the lines it printed and the files it saved, in order.
\<close>

record world =
  printed :: "string list"
  saved :: "string list"

text \<open>
  What the scripts find around them: whether each optional package can be imported, and
  for each block of calls into a plotting library the exception those calls raise, \<open>None\<close>
  when they succeed.  The content of the pictures is not modelled.
\<close>

record env =
  contextily_installed :: bool
  folium_installed :: bool
  wordcloud_installed :: bool
  basemap_plot :: "exn option"
  basic_plot :: "exn option"
  folium_calls :: "exn option"
  bar_chart_calls :: "exn option"
  pie_chart_calls :: "exn option"
  wordcloud_calls :: "exn option"
  heatmap_calls :: "exn option"

text \<open>A statement sequence with effects: it ends in a value or in an exception.\<close>

type_synonym 'a run = "world \<Rightarrow> (exn + 'a) \<times> world"

definition return :: "'a \<Rightarrow> 'a run" where
  "return x w = (Inr x, w)"

definition raise :: "exn \<Rightarrow> 'a run" where
  "raise e w = (Inl e, w)"

definition next_do :: "'a run \<Rightarrow> ('a \<Rightarrow> 'b run) \<Rightarrow> 'b run" where
  "next_do m f w = (case m w of (Inl e, w') \<Rightarrow> (Inl e, w') | (Inr x, w') \<Rightarrow> f x w')"

definition next_run :: "unit run \<Rightarrow> 'b run \<Rightarrow> 'b run" where
  "next_run m k = next_do m (\<lambda>_. k)"

text \<open>A computation without effects, inside a statement sequence.\<close>

definition lift :: "exn + 'a \<Rightarrow> 'a run" where
  "lift r w = (r, w)"

definition py_print :: "string \<Rightarrow> unit run" where
  "py_print line w = (Inr (), w\<lparr>printed := printed w @ [line]\<rparr>)"

text \<open>\<^verbatim>\<open>plt.savefig(file)\<close> and \<^verbatim>\<open>m.save(file)\<close>.\<close>

definition save :: "string \<Rightarrow> unit run" where
  "save file w = (Inr (), w\<lparr>saved := saved w @ [file]\<rparr>)"

text \<open>A block of library calls, with the outcome the environment gives it.\<close>

definition calls :: "exn option \<Rightarrow> unit run" where
  "calls outcome = (case outcome of None \<Rightarrow> return () | Some e \<Rightarrow> raise e)"

definition import_module :: "bool \<Rightarrow> string \<Rightarrow> unit run" where
  "import_module installed name = (if installed then return () else raise (ImportError name))"

text \<open>\<^verbatim>\<open>try: body except ImportError as e: handler\<close>.\<close>

definition except_ImportError :: "'a run \<Rightarrow> (exn \<Rightarrow> 'a run) \<Rightarrow> 'a run" where
  "except_ImportError body handler w =
     (case body w of
        (Inl (ImportError m), w') \<Rightarrow> handler (ImportError m) w'
      | r \<Rightarrow> r)"

text \<open>\<^verbatim>\<open>str(e)\<close> of an exception; Python words a failed import this way.\<close>

fun str_exn :: "exn \<Rightarrow> string" where
  "str_exn (ImportError m) = ''No module named '' @ [CHR 0x27] @ m @ [CHR 0x27]"
| "str_exn e = []"

section \<open>\<^verbatim>\<open>network.py\<close>: the two maps\<close>

text \<open>
  \<^verbatim>\<open>create_simple_map\<close>.  With contextily the axis limits are computed with \<^verbatim>\<open>min\<close> and
  \<^verbatim>\<open>max\<close> over the points, which raise \<^verbatim>\<open>ValueError\<close> on an empty sequence.  Without it the
  function prints a message and draws a basic plot.
\<close>

definition axis_limits :: "(cell, coords) dict \<Rightarrow> unit run" where
  "axis_limits points = (if points = [] then raise ValueError else return ())"

definition create_simple_map :: "env \<Rightarrow> sticker_row list \<Rightarrow> (cell, coords) dict run" where
  "create_simple_map e sticker_df =
     next_do (lift (unique_points sticker_df)) (\<lambda>points.
     next_run
       (except_ImportError
          (next_run (import_module (contextily_installed e) ''contextily'')
          (next_run (axis_limits points)
          (next_run (calls (basemap_plot e))
          (next_run (save ''sticker_locations_map.png'')
                    (py_print ''Map created successfully!'')))))
          (\<lambda>_.
           next_run (py_print ''Contextily package not installed. Creating basic plot...'')
          (next_run (calls (basic_plot e))
                    (save ''sticker_locations_map.png''))))
       (return points))"

text \<open>
  \<^verbatim>\<open>create_expanded_map\<close>: the whole body is inside \<^verbatim>\<open>try ... except ImportError\<close>.
\<close>

definition created_message :: "nat \<Rightarrow> nat \<Rightarrow> nat \<Rightarrow> string" where
  "created_message n_points n_orgs n_conns =
     ''Interactive map created with '' @ str_nat n_points @ '' sticker locations, ''
       @ str_nat n_orgs @ '' organizations, and '' @ str_nat n_conns @ '' connections''"

definition create_expanded_map :: "env \<Rightarrow> sticker_row list \<Rightarrow> general_row list \<Rightarrow> bool run" where
  "create_expanded_map e sticker_df general_df =
     except_ImportError
       (next_run (import_module (folium_installed e) ''folium'')
       (next_do (lift (unique_points sticker_df)) (\<lambda>sticker_points.
        next_do (lift (org_points general_df)) (\<lambda>orgs.
        next_do (return (find_connections sticker_df sticker_points orgs [])) (\<lambda>connections.
        next_do (lift (map_center sticker_points orgs)) (\<lambda>center.
        next_run (calls (folium_calls e))
       (next_run (save ''expanded_network_map.html'')
       (next_run (py_print (created_message (length sticker_points) (length orgs)
                              (length connections)))
                 (return True)))))))))
       (\<lambda>err.
        next_run (py_print (''Error creating interactive map: '' @ str_exn err))
                 (return False))"

text \<open>The script's main part, after the file paths.\<close>

definition network_main :: "env \<Rightarrow> sticker_row list \<Rightarrow> general_row list \<Rightarrow> unit run" where
  "network_main e sticker_df general_df =
     next_run (py_print ''Creating map of sticker locations...'')
    (next_do (create_simple_map e sticker_df) (\<lambda>sticker_points.
     next_run (py_print (''Created map with '' @ str_nat (length sticker_points)
                           @ '' sticker locations''))
    (next_run (py_print (CHR 0x0A # ''Creating expanded interactive map...''))
    (next_do (create_expanded_map e sticker_df general_df) (\<lambda>success.
     next_run
       (if success then
          next_run (py_print (CHR 0x0A # ''Visualization complete!''))
         (next_run (py_print ''Output files:'')
         (next_run (py_print ''1. sticker_locations_map.png - Basic map showing sticker locations (Points A-I)'')
                   (py_print ''2. expanded_network_map.html - Interactive map showing sticker locations and organizations'')))
        else
          next_run (py_print (CHR 0x0A # ''Could not create interactive map. Please install folium:''))
                   (py_print ''pip install folium''))
    (next_run (py_print (CHR 0x0A # ''To ensure proper map background, make sure you have:''))
              (py_print ''pip install contextily'')))))))"

section \<open>\<^verbatim>\<open>visual.py\<close>: topic frequencies\<close>

text \<open>
  A table of topics and counts (\<^verbatim>\<open>topic_df\<close>) is a list of rows \<open>(Topic, Count)\<close>.

  The cleaning of \<^verbatim>\<open>analyze_topic_frequencies\<close>: every topic cell is converted with
  \<^verbatim>\<open>str\<close> and stripped, then the texts \<^verbatim>\<open>N/A\<close> and \<^verbatim>\<open>nan\<close> are removed.
\<close>

type_synonym topic_df = "(string \<times> nat) list"

definition clean_topics :: "general_row list \<Rightarrow> string list" where
  "clean_topics df =
     filter (\<lambda>t. t \<noteq> ''N/A'' \<and> t \<noteq> ''nan'') (map (\<lambda>row. strip (py_str (topic row))) df)"

text \<open>
  \<^verbatim>\<open>Counter(xs)\<close>: one pass that adds 1 to the count of each element; the keys stay in the
  order of their first appearance.
\<close>

fun count_elements :: "'a list \<Rightarrow> ('a, nat) dict \<Rightarrow> ('a, nat) dict" where
  "count_elements [] counts = counts"
| "count_elements (x # xs) counts =
     count_elements xs
       (AList.update x (case map_of counts x of None \<Rightarrow> 1 | Some n \<Rightarrow> n + 1) counts)"

definition Counter :: "'a list \<Rightarrow> ('a, nat) dict" where
  "Counter xs = count_elements xs []"

text \<open>
  \<^verbatim>\<open>sort_values('Count', ascending=False)\<close> is called without \<^verbatim>\<open>kind\<close>, so pandas sorts with
  its default \<^verbatim>\<open>quicksort\<close>, which it documents as not stable.  The code therefore fixes the
  result only up to the order of rows with equal counts: \<open>sort_values_desc rows out\<close> says
  that \<open>out\<close> is a result the call may give for \<open>rows\<close>, a rearrangement of the rows with
  the counts descending.
\<close>

definition sort_values_desc :: "('a \<times> nat) list \<Rightarrow> ('a \<times> nat) list \<Rightarrow> bool" where
  "sort_values_desc rows out =
     (mset out = mset rows \<and> sorted_wrt (\<lambda>a b. snd b \<le> snd a) out)"

text \<open>
  \<^verbatim>\<open>analyze_topic_frequencies\<close>, from the cleaned topics on (\<open>topic_frequencies\<close>) and from
  the loaded table.
\<close>

definition topic_frequencies :: "string list \<Rightarrow> topic_df \<Rightarrow> bool" where
  "topic_frequencies topics out = sort_values_desc (Counter topics) out"

definition analyze_topic_frequencies :: "general_row list \<Rightarrow> topic_df \<Rightarrow> bool" where
  "analyze_topic_frequencies df out = topic_frequencies (clean_topics df) out"

text \<open>
  The words of the specification: a stable descending sort, which keeps rows with equal
  counts in their order in the input.
\<close>

definition stable_sort_desc :: "('a \<times> nat) list \<Rightarrow> ('a \<times> nat) list" where
  "stable_sort_desc rows = sort_key (\<lambda>r. - int (snd r)) rows"

section \<open>\<^verbatim>\<open>visual.py\<close>: the pie chart's table\<close>

text \<open>The table \<^verbatim>\<open>pie_df\<close> that \<^verbatim>\<open>create_pie_chart\<close> plots, with \<^verbatim>\<open>threshold = 3\<close>.\<close>

definition threshold :: nat where
  "threshold = 3"

definition to_group :: "topic_df \<Rightarrow> topic_df" where
  "to_group topic_df = filter (\<lambda>r. snd r < threshold) topic_df"

definition pie_df :: "topic_df \<Rightarrow> topic_df" where
  "pie_df topic_df =
     (if to_group topic_df \<noteq> [] then
        filter (\<lambda>r. threshold \<le> snd r) topic_df
          @ [(''Other'', sum_list (map snd (to_group topic_df)))]
      else topic_df)"

section \<open>\<^verbatim>\<open>visual.py\<close>: organizations and topics\<close>

text \<open>
  The cleaning of \<^verbatim>\<open>analyze_organization_topics\<close>: the rows with an organization and a
  topic that are present and not \<^verbatim>\<open>N/A\<close> are kept, then both cells are converted with
  \<^verbatim>\<open>str\<close> and stripped.
\<close>

definition clean_pairs :: "general_row list \<Rightarrow> (string \<times> string) list" where
  "clean_pairs df =
     map (\<lambda>row. (strip (py_str (organization row)), strip (py_str (topic row))))
       (filter (\<lambda>row. notna (organization row) \<and> organization row \<noteq> Str ''N/A''
                     \<and> notna (topic row) \<and> topic row \<noteq> Str ''N/A'') df)"

text \<open>
  \<^verbatim>\<open>groupby(['organization', 'topic']).size()\<close>: one row for each pair that occurs, with
  the number of its occurrences, in the sorted order of the pairs.
\<close>

definition org_topic_counts :: "(string \<times> string) list \<Rightarrow> ((string \<times> string) \<times> nat) list" where
  "org_topic_counts pairs = map (\<lambda>k. (k, count_list pairs k)) (sort (remdups pairs))"

text \<open>
  \<^verbatim>\<open>value_counts()\<close> counts in order of first appearance and sorts the counts descending
  with the default sort.  \<^verbatim>\<open>nlargest(n)\<close> sorts again with the default sort when the series
  has at most \<open>n\<close> rows, and otherwise takes the first \<open>n\<close> rows of a stable descending sort.
\<close>

definition value_counts :: "'a list \<Rightarrow> ('a \<times> nat) list \<Rightarrow> bool" where
  "value_counts xs out = sort_values_desc (Counter xs) out"

definition nlargest :: "nat \<Rightarrow> ('a \<times> nat) list \<Rightarrow> ('a \<times> nat) list \<Rightarrow> bool" where
  "nlargest n series out =
     (if length series \<le> n then sort_values_desc series out
      else out = take n (stable_sort_desc series))"

text \<open>
  \<open>top_orgs pairs counts largest orgs\<close>: \<open>orgs\<close> is a list the expression
  \<^verbatim>\<open>df['organization'].value_counts().nlargest(10).index.tolist()\<close> may give, with \<open>counts\<close>
  and \<open>largest\<close> the two intermediate series.
\<close>

definition top_orgs ::
  "(string \<times> string) list \<Rightarrow> (string \<times> nat) list \<Rightarrow> (string \<times> nat) list \<Rightarrow> string list \<Rightarrow> bool" where
  "top_orgs pairs counts largest orgs =
     (value_counts (map fst pairs) counts \<and> nlargest 10 counts largest \<and> orgs = map fst largest)"

definition filtered_counts ::
  "string list \<Rightarrow> ((string \<times> string) \<times> nat) list \<Rightarrow> ((string \<times> string) \<times> nat) list" where
  "filtered_counts orgs counts = filter (\<lambda>r. fst (fst r) \<in> set orgs) counts"

text \<open>
  \<^verbatim>\<open>pivot_table(index='organization', columns='topic', values='count', fill_value=0)\<close>:
  the row labels and the column labels are the sorted organizations and topics of the
  table, a cell holds the count of its pair (the mean of the one row of the pair), and 0
  where the table has no row for the pair.
\<close>

record pivot =
  index :: "string list"
  columns :: "string list"
  cells :: "nat list list"

definition cell_of :: "((string \<times> string) \<times> nat) list \<Rightarrow> string \<Rightarrow> string \<Rightarrow> nat" where
  "cell_of counts org tp = (case map_of counts (org, tp) of None \<Rightarrow> 0 | Some n \<Rightarrow> n)"

definition pivot_table :: "((string \<times> string) \<times> nat) list \<Rightarrow> pivot" where
  "pivot_table counts =
     \<lparr>index = sort (remdups (map (\<lambda>r. fst (fst r)) counts)),
      columns = sort (remdups (map (\<lambda>r. snd (fst r)) counts)),
      cells = map (\<lambda>org. map (\<lambda>tp. cell_of counts org tp)
                             (sort (remdups (map (\<lambda>r. snd (fst r)) counts))))
                (sort (remdups (map (\<lambda>r. fst (fst r)) counts)))\<rparr>"

text \<open>The table the heatmap shows, for a list \<open>orgs\<close> of top organizations.\<close>

definition heatmap_table :: "(string \<times> string) list \<Rightarrow> string list \<Rightarrow> pivot" where
  "heatmap_table pairs orgs = pivot_table (filtered_counts orgs (org_topic_counts pairs))"

text \<open>
  The words of the specification: the top \<open>n\<close> by count with ties broken by first-seen
  order, that is, the first \<open>n\<close> of a stable descending sort of the counts.
\<close>

definition first_seen_top :: "nat \<Rightarrow> 'a list \<Rightarrow> 'a list" where
  "first_seen_top n xs = map fst (take n (stable_sort_desc (Counter xs)))"

text \<open>The pairs that have a row in the filtered table, in its order.\<close>

definition kept_keys :: "(string \<times> string) list \<Rightarrow> string list \<Rightarrow> (string \<times> string) list" where
  "kept_keys pairs orgs = filter (\<lambda>k. fst k \<in> set orgs) (sort (remdups pairs))"

section \<open>\<^verbatim>\<open>visual.py\<close>: the charts and the script\<close>

text \<open>
  The four functions that draw.  Each makes its calls into the plotting libraries, saves
  the picture and prints a line.  Only \<^verbatim>\<open>create_wordcloud\<close> has a \<^verbatim>\<open>try\<close>, and it catches
  \<^verbatim>\<open>ImportError\<close> only.
\<close>

definition create_bar_chart :: "env \<Rightarrow> string \<Rightarrow> unit run" where
  "create_bar_chart e output_file =
     next_run (calls (bar_chart_calls e))
    (next_run (save output_file)
              (py_print (''Bar chart saved as '' @ output_file)))"

definition create_pie_chart :: "env \<Rightarrow> string \<Rightarrow> unit run" where
  "create_pie_chart e output_file =
     next_run (calls (pie_chart_calls e))
    (next_run (save output_file)
              (py_print (''Pie chart saved as '' @ output_file)))"

definition create_wordcloud :: "env \<Rightarrow> string \<Rightarrow> unit run" where
  "create_wordcloud e output_file =
     except_ImportError
       (next_run (import_module (wordcloud_installed e) ''wordcloud'')
       (next_run (calls (wordcloud_calls e))
       (next_run (save output_file)
                 (py_print (''Word cloud saved as '' @ output_file)))))
       (\<lambda>_. py_print ''WordCloud package not installed. Install with: pip install wordcloud'')"

definition analyze_organization_topics :: "env \<Rightarrow> string \<Rightarrow> unit run" where
  "analyze_organization_topics e output_file =
     next_run (calls (heatmap_calls e))
    (next_run (save output_file)
              (py_print (''Organization-topic heatmap saved as '' @ output_file)))"

text \<open>The paths the script computes from its own location.\<close>

record paths =
  file_path :: string
  bar_chart_path :: string
  pie_chart_path :: string
  wordcloud_path :: string
  heatmap_path :: string

fun print_all :: "string list \<Rightarrow> unit run" where
  "print_all [] = return ()"
| "print_all (line # lines) = next_run (py_print line) (print_all lines)"

definition mentions :: "string \<times> nat \<Rightarrow> string" where
  "mentions row = ''  '' @ fst row @ '': '' @ str_nat (snd row) @ '' mentions''"

text \<open>
  The script's main part.  \<open>topic_df\<close> is the table that \<^verbatim>\<open>analyze_topic_frequencies\<close>
  returned.
\<close>

definition visual_main :: "env \<Rightarrow> paths \<Rightarrow> topic_df \<Rightarrow> unit run" where
  "visual_main e ps topic_df =
     next_run (py_print (''Looking for data file in: '' @ file_path ps))
    (next_run (py_print (''Found '' @ str_nat (length topic_df) @ '' unique topics''))
    (next_run (py_print ''Top 5 topics:'')
    (next_run (print_all (map mentions (take 5 topic_df)))
    (next_run (create_bar_chart e (bar_chart_path ps))
    (next_run (create_pie_chart e (pie_chart_path ps))
    (next_run (create_wordcloud e (wordcloud_path ps))
    (next_run (analyze_organization_topics e (heatmap_path ps))
    (next_run (py_print (CHR 0x0A # ''Visualization complete!''))
    (next_run (py_print ''Output files:'')
    (next_run (py_print (''1. '' @ bar_chart_path ps @ '' - Bar chart of topic frequencies''))
    (next_run (py_print (''2. '' @ pie_chart_path ps @ '' - Pie chart of topic distribution''))
    (next_run (py_print (''3. '' @ wordcloud_path ps
                           @ '' - Word cloud visualization of topics (requires wordcloud package)''))
              (py_print (''4. '' @ heatmap_path ps
                           @ '' - Heatmap showing which organizations focus on which topics''))))))))))))))"

chapter \<open>Properties\<close>

section \<open>Evaluation and the parser's parts\<close>

lemmas float_eval = py_float_def strip_def is_space_def is_digit_def parse_number_def
  parse_mantissa_def scale10_def exponent_digits_def float_unsigned_def nat_of_digits_def
  digit_val_def lower_def round_overflow_def

lemmas coord_eval = extract_coordinates_def try_block_def parse_parts_def bind_def split_on_def

lemma float_unsigned_raises: "float_unsigned neg body = Inl e \<Longrightarrow> e = ValueError"
  by (auto simp: float_unsigned_def split: option.splits if_splits)

lemma py_float_raises: "py_float s = Inl e \<Longrightarrow> e = ValueError"
  by (cases "remove_underscores None (strip s)"; cases "the (remove_underscores None (strip s))")
     (auto simp: py_float_def dest: float_unsigned_raises split: if_splits)

lemma split_acc_part:
  "sep \<notin> set p \<Longrightarrow> split_acc sep acc (p @ sep # r) = (rev acc @ p) # split_acc sep [] r"
  by (induction p arbitrary: acc) auto

lemma split_acc_last: "sep \<notin> set p \<Longrightarrow> split_acc sep acc p = [rev acc @ p]"
  by (induction p arbitrary: acc) auto

lemma split_on_two:
  assumes "sep \<notin> set p0" and "sep \<notin> set p1"
  shows "split_on sep (p0 @ sep # p1) = [p0, p1]"
  using assms by (simp add: split_on_def split_acc_part split_acc_last)

lemma split_on_more:
  assumes "sep \<notin> set p0" and "sep \<notin> set p1"
  shows "split_on sep (p0 @ sep # p1 @ sep # r) = p0 # p1 # split_on sep r"
  using assms by (simp add: split_on_def split_acc_part)

lemma parse_parts_two:
  "parse_parts (p0 # p1 # ps) =
     (case (py_float (strip p0), py_float (strip p1)) of
        (Inr lat, Inr lon) \<Rightarrow> Inr (Some (Some lat, Some lon))
      | (Inr lat, Inl e) \<Rightarrow> Inl e
      | (Inl e, _) \<Rightarrow> Inl e)"
  by (simp add: parse_parts_def bind_def split: sum.splits)

lemma extract_coordinates_parts:
  assumes "split_on CHR '','' s = p0 # p1 # ps" and "CHR '','' \<in> set s"
  shows "extract_coordinates (Str s) =
     (case (py_float (strip p0), py_float (strip p1)) of
        (Inr lat, Inr lon) \<Rightarrow> Inr (Some lat, Some lon)
      | _ \<Rightarrow> Inr (None, None))"
proof -
  have "s \<noteq> ''N/A''" using assms(2) by auto
  then show ?thesis
    using assms
    by (auto simp: extract_coordinates_def try_block_def parse_parts_two
        split: sum.splits dest: py_float_raises)
qed

lemma extract_coordinates_returns:
  "extract_coordinates c = Inr (None, None) \<or>
   (\<exists>lat lon. extract_coordinates c = Inr (Some lat, Some lon))"
proof (cases c)
  case (Str s)
  show ?thesis
  proof (cases "s \<noteq> ''N/A'' \<and> CHR '','' \<in> set s")
    case True
    show ?thesis
    proof (cases "try_block s")
      case (Inl e)
      then have "e = ValueError"
        by (auto simp: try_block_def parse_parts_def bind_def
            split: if_splits sum.splits dest: py_float_raises)
      with Inl True Str show ?thesis by (simp add: extract_coordinates_def)
    next
      case (Inr r)
      then show ?thesis using True Str
        by (cases r) (auto simp: extract_coordinates_def try_block_def parse_parts_def bind_def
            split: if_splits sum.splits)
    qed
  next
    case False
    then show ?thesis using Str by (auto simp: extract_coordinates_def)
  qed
qed (simp_all add: extract_coordinates_def)

section \<open>Lemmas on the location loop\<close>

subsection \<open>Dictionaries\<close>

lemma update_new_key: "k \<notin> fst ` set d \<Longrightarrow> AList.update k v d = d @ [(k, v)]"
  by (induction d) auto

subsection \<open>Dropping duplicates\<close>

lemma drop_duplicates_seen_keys:
  "set (map col (drop_duplicates_seen col seen rows)) = set (map col rows) - set seen"
  by (induction rows arbitrary: seen) auto

lemma drop_duplicates_seen_distinct: "distinct (map col (drop_duplicates_seen col seen rows))"
proof (induction rows arbitrary: seen)
  case Nil
  show ?case by simp
next
  case (Cons row rows)
  have "col row \<notin> set (map col (drop_duplicates_seen col (col row # seen) rows))"
    unfolding drop_duplicates_seen_keys by simp
  with Cons show ?case by simp
qed

lemma drop_duplicates_seen_find:
  "find (\<lambda>r. col r = n) (drop_duplicates_seen col seen rows) =
     (if n \<in> set seen then None else find (\<lambda>r. col r = n) rows)"
  by (induction rows arbitrary: seen) auto

lemma drop_duplicates_distinct: "distinct (map col (drop_duplicates col df))"
  by (simp add: drop_duplicates_def drop_duplicates_seen_distinct)

lemma drop_duplicates_find:
  "find (\<lambda>r. col r = n) (drop_duplicates col df) = find (\<lambda>r. col r = n) df"
  by (simp add: drop_duplicates_def drop_duplicates_seen_find)

subsection \<open>The location loop\<close>

lemma add_point_resolved:
  "add_point row points =
     Inr (case resolved row of
            Some c \<Rightarrow> AList.update (sticker_location row) c points
          | None \<Rightarrow> points)"
  using extract_coordinates_returns [of "sticker_location_coordinates row"]
  by (auto simp: add_point_def resolved_def notna_def bind_def)

lemma entries_keys: "fst ` set (entries rows) \<subseteq> sticker_location ` set rows"
  by (auto simp: entries_def)

lemma add_points_distinct:
  assumes "distinct (map sticker_location rows)"
    and "sticker_location ` set rows \<inter> fst ` set points = {}"
  shows "add_points rows points = Inr (points @ entries rows)"
  using assms
proof (induction rows arbitrary: points)
  case Nil
  then show ?case by (simp add: entries_def)
next
  case (Cons row rows)
  show ?case
  proof (cases "resolved row")
    case None
    then show ?thesis
      using Cons by (simp add: add_point_resolved bind_def entries_def)
  next
    case (Some c)
    have new: "sticker_location row \<notin> fst ` set points"
      using Cons.prems(2) by auto
    have "sticker_location ` set rows \<inter> fst ` set (points @ [(sticker_location row, c)]) = {}"
      using Cons.prems by auto
    then have "add_points rows (points @ [(sticker_location row, c)]) =
        Inr ((points @ [(sticker_location row, c)]) @ entries rows)"
      using Cons.IH Cons.prems(1) by simp
    then show ?thesis
      using Some new by (simp add: add_point_resolved bind_def update_new_key entries_def)
  qed
qed

lemma unique_points_entries:
  "unique_points df = Inr (entries (drop_duplicates sticker_location df))"
  using add_points_distinct [of "drop_duplicates sticker_location df" "[]"]
  by (simp add: unique_points_def drop_duplicates_distinct)

lemma map_of_entries:
  "distinct (map sticker_location rows) \<Longrightarrow>
   map_of (entries rows) n =
     (case find (\<lambda>row. sticker_location row = n) rows of None \<Rightarrow> None | Some row \<Rightarrow> resolved row)"
proof (induction rows)
  case Nil
  then show ?case by (simp add: entries_def)
next
  case (Cons row rows)
  have absent: "map_of (entries rows) (sticker_location row) = None"
    using Cons.prems entries_keys [of rows] by (auto simp: map_of_eq_None_iff)
  show ?case
    using Cons absent by (cases "resolved row") (auto simp: entries_def)
qed

lemma distinct_entries: "distinct (map sticker_location rows) \<Longrightarrow> distinct (map fst (entries rows))"
  by (simp add: entries_def comp_def distinct_map_filter)


lemmas points_eval = unique_points_def drop_duplicates_def add_point_def notna_def

section \<open>Lemmas on the organization loop and the link loop\<close>

lemma add_org_resolved:
  "add_org row orgs =
     Inr (case org_resolved row of
            Some c \<Rightarrow> AList.update (org_key_of row) (org_record row c) orgs
          | None \<Rightarrow> orgs)"
  using extract_coordinates_returns [of "organization_location_coordinates row"]
  by (auto simp: add_org_def org_resolved_def notna_def bind_def)

lemma find_snoc:
  "find P (xs @ [x]) = (case find P xs of None \<Rightarrow> (if P x then Some x else None) | Some y \<Rightarrow> Some y)"
  by (induction xs) auto

lemma add_orgs_map_of:
  "\<exists>orgs'. add_orgs rows orgs = Inr orgs' \<and>
     fst ` set orgs' = fst ` set orgs \<union> org_key_of ` {row \<in> set rows. org_resolved row \<noteq> None} \<and>
     (\<forall>key. map_of orgs' key =
        (case find (\<lambda>row. org_key_of row = key \<and> org_resolved row \<noteq> None) (rev rows) of
           None \<Rightarrow> map_of orgs key
         | Some row \<Rightarrow> Some (org_record row (the (org_resolved row)))))"
proof (induction rows arbitrary: orgs)
  case Nil
  show ?case by simp
next
  case (Cons row rows)
  show ?case
  proof (cases "org_resolved row")
    case None
    from Cons [of orgs] obtain orgs' where
      r: "add_orgs rows orgs = Inr orgs'" and
      k: "fst ` set orgs' = fst ` set orgs \<union> org_key_of ` {row \<in> set rows. org_resolved row \<noteq> None}" and
      m: "\<And>key. map_of orgs' key =
        (case find (\<lambda>row. org_key_of row = key \<and> org_resolved row \<noteq> None) (rev rows) of
           None \<Rightarrow> map_of orgs key
         | Some row \<Rightarrow> Some (org_record row (the (org_resolved row))))"
      by blast
    have "add_orgs (row # rows) orgs = Inr orgs'"
      using r None by (simp add: add_org_resolved bind_def)
    moreover have "fst ` set orgs' =
        fst ` set orgs \<union> org_key_of ` {r \<in> set (row # rows). org_resolved r \<noteq> None}"
      using k None by auto
    moreover have "map_of orgs' key =
        (case find (\<lambda>row. org_key_of row = key \<and> org_resolved row \<noteq> None) (rev (row # rows)) of
           None \<Rightarrow> map_of orgs key
         | Some row \<Rightarrow> Some (org_record row (the (org_resolved row))))" for key
      using None by (simp add: m find_snoc split: option.splits)
    ultimately show ?thesis by blast
  next
    case (Some c)
    let ?o = "AList.update (org_key_of row) (org_record row c) orgs"
    from Cons [of ?o] obtain orgs' where
      r: "add_orgs rows ?o = Inr orgs'" and
      k: "fst ` set orgs' = fst ` set ?o \<union> org_key_of ` {row \<in> set rows. org_resolved row \<noteq> None}" and
      m: "\<And>key. map_of orgs' key =
        (case find (\<lambda>row. org_key_of row = key \<and> org_resolved row \<noteq> None) (rev rows) of
           None \<Rightarrow> map_of ?o key
         | Some row \<Rightarrow> Some (org_record row (the (org_resolved row))))"
      by blast
    have "add_orgs (row # rows) orgs = Inr orgs'"
      using r Some by (simp add: add_org_resolved bind_def)
    moreover have "fst ` set orgs' =
        fst ` set orgs \<union> org_key_of ` {r \<in> set (row # rows). org_resolved r \<noteq> None}"
      using k Some by (auto simp: dom_update)
    moreover have "map_of orgs' key =
        (case find (\<lambda>row. org_key_of row = key \<and> org_resolved row \<noteq> None) (rev (row # rows)) of
           None \<Rightarrow> map_of orgs key
         | Some row \<Rightarrow> Some (org_record row (the (org_resolved row))))" for key
      using Some by (simp add: m find_snoc update_conv' split: option.splits)
    ultimately show ?thesis by blast
  qed
qed

lemma match_orgs_filter:
  "match_orgs sid loc points orgs conns =
     conns @ map (\<lambda>(key, od). make_connection loc (the (map_of points loc)) key od)
       (filter (\<lambda>(key, od). py_eq (d_sticker_id od) sid \<and> map_of points loc \<noteq> None) orgs)"
proof (induction orgs arbitrary: conns)
  case Nil
  show ?case by simp
next
  case (Cons org orgs)
  obtain key od where org: "org = (key, od)" by (cases org)
  show ?case
    unfolding org by (cases "map_of points loc") (simp_all add: Cons)
qed

lemma find_connections_product:
  "find_connections rows points orgs conns =
     conns @ map (connection_of points) (filter (linked points) (List.product rows orgs))"
proof (induction rows arbitrary: conns)
  case Nil
  show ?case by simp
next
  case (Cons row rows)
  have "map (\<lambda>(key, od). make_connection (sticker_location row)
            (the (map_of points (sticker_location row))) key od)
          (filter (\<lambda>(key, od). py_eq (d_sticker_id od) (sticker_ID row)
            \<and> map_of points (sticker_location row) \<noteq> None) orgs) =
        map (connection_of points) (filter (linked points) (map (Pair row) orgs))"
    by (induction orgs) (auto simp: linked_def connection_of_def)
  then show ?case
    by (simp add: Cons match_orgs_filter)
qed

section \<open>Lemmas on the map center\<close>

lemmas run_defs = next_do_def next_run_def return_def raise_def lift_def py_print_def save_def
  calls_def import_module_def except_ImportError_def

lemma drop_duplicates_seen_subset: "set (drop_duplicates_seen col seen rows) \<subseteq> set rows"
  by (induction rows arbitrary: seen) auto

lemma unique_points_none:
  assumes "\<forall>row \<in> set sticker_df. resolved row = None"
  shows "unique_points sticker_df = Inr []"
proof -
  have "filter (\<lambda>row. resolved row \<noteq> None) (drop_duplicates sticker_location sticker_df) = []"
    using assms drop_duplicates_seen_subset [of sticker_location "[]" sticker_df]
    by (auto simp: drop_duplicates_def filter_empty_conv)
  then show ?thesis
    by (simp add: unique_points_entries entries_def)
qed

lemma org_points_keys:
  "\<exists>orgs. org_points general_df = Inr orgs \<and>
     fst ` set orgs = org_key_of ` {row \<in> set general_df. org_resolved row \<noteq> None}"
  using add_orgs_map_of [of general_df "[]"] by (auto simp: org_points_def)

lemma org_points_none:
  assumes "\<forall>row \<in> set general_df. org_resolved row = None"
  shows "org_points general_df = Inr []"
proof -
  from org_points_keys [of general_df] obtain orgs where
    r: "org_points general_df = Inr orgs" and
    k: "fst ` set orgs = org_key_of ` {row \<in> set general_df. org_resolved row \<noteq> None}"
    by blast
  from assms have "{row \<in> set general_df. org_resolved row \<noteq> None} = {}" by simp
  with k have "fst ` set orgs = {}" by simp
  then have "orgs = []" by simp
  with r show ?thesis by simp
qed

lemma map_center_mean:
  "map_center points orgs =
     (if points = [] \<and> orgs = [] then Inl ZeroDivisionError
      else Inr (fdiv_nat (py_sum (all_lats points orgs)) (length points + length orgs),
                fdiv_nat (py_sum (all_lons points orgs)) (length points + length orgs)))"
  by (simp add: map_center_def mean_def all_lats_def all_lons_def bind_def)

section \<open>Lemmas on counting and sorting\<close>

subsection \<open>Counting\<close>

lemma count_elements_keys: "fst ` set (count_elements xs counts) = fst ` set counts \<union> set xs"
  by (induction xs arbitrary: counts) (auto simp: dom_update)

lemma count_elements_distinct:
  "distinct (map fst counts) \<Longrightarrow> distinct (map fst (count_elements xs counts))"
  by (induction xs arbitrary: counts) (auto simp: distinct_update)

lemma count_elements_map_of:
  "map_of (count_elements xs counts) x =
     (if count_list xs x = 0 then map_of counts x
      else Some (count_list xs x + (case map_of counts x of None \<Rightarrow> 0 | Some n \<Rightarrow> n)))"
  by (induction xs arbitrary: counts) (auto simp: update_conv' split: option.splits)

lemma Counter_keys: "fst ` set (Counter xs) = set xs"
  by (simp add: Counter_def count_elements_keys)

lemma Counter_distinct: "distinct (map fst (Counter xs))"
  by (simp add: Counter_def count_elements_distinct)

lemma Counter_count: "(x, n) \<in> set (Counter xs) \<Longrightarrow> n = count_list xs x \<and> 0 < n"
proof -
  assume "(x, n) \<in> set (Counter xs)"
  then have "map_of (Counter xs) x = Some n"
    using Counter_distinct [of xs] by simp
  then show ?thesis
    by (auto simp: Counter_def count_elements_map_of split: if_splits)
qed

subsection \<open>Sorting by count\<close>

lemma sorted_desc_key:
  "sorted (map (\<lambda>r. - int (snd r)) out) = sorted_wrt (\<lambda>a b. snd b \<le> snd a) out"
  by (simp add: sorted_map)

lemma stable_sort_desc_admitted: "sort_values_desc rows (stable_sort_desc rows)"
  using sorted_sort_key [of "\<lambda>r. - int (snd r)" rows]
  by (simp add: sort_values_desc_def stable_sort_desc_def sorted_desc_key)

lemma sort_values_desc_unique:
  assumes "sort_values_desc rows out" and "distinct (map snd rows)"
  shows "out = stable_sort_desc rows"
proof -
  have "inj_on (\<lambda>r. - int (snd r)) (set rows)"
    using assms(2) by (auto simp: inj_on_def distinct_map)
  moreover have "mset rows = mset out" and "sorted (map (\<lambda>r. - int (snd r)) out)"
    using assms(1) by (simp_all add: sort_values_desc_def sorted_desc_key)
  ultimately have "sort_key (\<lambda>r. - int (snd r)) rows = out"
    using sort_key_inj_key_eq [of rows out "\<lambda>r. - int (snd r)"] by blast
  then show ?thesis
    by (simp add: stable_sort_desc_def)
qed

lemma sort_values_desc_set: "sort_values_desc rows out \<Longrightarrow> set out = set rows"
  by (auto simp: sort_values_desc_def dest: mset_eq_setD)

lemma sort_values_desc_keys:
  assumes "sort_values_desc rows out"
  shows "distinct (map fst out) = distinct (map fst rows)"
proof -
  have "mset (map fst out) = mset (map fst rows)"
    using assms by (simp add: sort_values_desc_def)
  then show ?thesis by (rule mset_eq_imp_distinct_iff)
qed


lemmas count_eval = Counter_def topic_frequencies_def sort_values_desc_def stable_sort_desc_def

section \<open>Lemmas on the organization-topic table\<close>

subsection \<open>Selecting the largest\<close>

lemma sort_values_desc_trans:
  "sort_values_desc a b \<Longrightarrow> sort_values_desc b c \<Longrightarrow> sort_values_desc a c"
  by (simp add: sort_values_desc_def)

lemma stable_sort_desc_sorted:
  "sorted_wrt (\<lambda>a b. snd b \<le> snd a) rows \<Longrightarrow> stable_sort_desc rows = rows"
  by (simp add: stable_sort_desc_def sort_key_id_if_sorted sorted_desc_key)

lemma top_orgs_take:
  assumes "top_orgs pairs counts largest orgs"
  shows "\<exists>s. sort_values_desc (Counter (map fst pairs)) s \<and> orgs = map fst (take 10 s)"
proof (cases "length counts \<le> 10")
  case True
  with assms have l: "sort_values_desc counts largest"
    by (simp add: top_orgs_def nlargest_def)
  have "length largest = length counts"
    using l by (auto simp: sort_values_desc_def dest: mset_eq_length)
  with True have "take 10 largest = largest" by simp
  moreover have "sort_values_desc (Counter (map fst pairs)) largest"
    using assms l by (auto simp: top_orgs_def value_counts_def intro: sort_values_desc_trans)
  ultimately show ?thesis
    using assms by (auto simp: top_orgs_def)
next
  case False
  have c: "sort_values_desc (Counter (map fst pairs)) counts"
    using assms by (simp add: top_orgs_def value_counts_def)
  then have "stable_sort_desc counts = counts"
    by (simp add: sort_values_desc_def stable_sort_desc_sorted)
  with False assms have "orgs = map fst (take 10 counts)"
    by (simp add: top_orgs_def nlargest_def)
  with c show ?thesis by blast
qed

lemma first_seen_top_admitted:
  "top_orgs pairs (stable_sort_desc (Counter (map fst pairs)))
     (take 10 (stable_sort_desc (Counter (map fst pairs))))
     (first_seen_top 10 (map fst pairs))"
proof -
  let ?s = "stable_sort_desc (Counter (map fst pairs))"
  have s: "sort_values_desc (Counter (map fst pairs)) ?s"
    by (rule stable_sort_desc_admitted)
  then have sorted: "sorted_wrt (\<lambda>a b. snd b \<le> snd a) ?s"
    by (simp add: sort_values_desc_def)
  have "nlargest 10 ?s (take 10 ?s)"
    using sorted by (simp add: nlargest_def stable_sort_desc_sorted sort_values_desc_def)
  with s show ?thesis
    by (simp add: top_orgs_def value_counts_def first_seen_top_def)
qed

lemma take_largest:
  assumes s: "sort_values_desc (Counter xs) s"
  shows "distinct (map fst (take n s))"
    and "set (map fst (take n s)) \<subseteq> set xs"
    and "length (map fst (take n s)) = min n (card (set xs))"
    and "\<forall>a \<in> set (map fst (take n s)). \<forall>b \<in> set xs - set (map fst (take n s)).
           count_list xs b \<le> count_list xs a"
proof -
  have set_s: "set s = set (Counter xs)"
    using s by (rule sort_values_desc_set)
  have d: "distinct (map fst s)"
    using sort_values_desc_keys [OF s] Counter_distinct [of xs] by simp
  have keys: "fst ` set s = set xs"
    using set_s Counter_keys [of xs] by simp
  have cnt: "snd r = count_list xs (fst r)" if "r \<in> set s" for r
    using that set_s Counter_count [of "fst r" "snd r" xs] by simp
  have split: "map fst s = map fst (take n s) @ map fst (drop n s)"
    by (simp flip: map_append)
  show "distinct (map fst (take n s))"
    using d split by (metis distinct_append)
  show "set (map fst (take n s)) \<subseteq> set xs"
    using keys set_take_subset [of n s] by auto
  have "length s = card (set xs)"
    using d keys by (metis distinct_card length_map set_map)
  then show "length (map fst (take n s)) = min n (card (set xs))"
    by (simp add: min.commute)
  have sorted: "sorted_wrt (\<lambda>a b. snd b \<le> snd a) (take n s @ drop n s)"
    using s by (simp add: sort_values_desc_def)
  show "\<forall>a \<in> set (map fst (take n s)). \<forall>b \<in> set xs - set (map fst (take n s)).
           count_list xs b \<le> count_list xs a"
  proof (intro ballI)
    fix a b
    assume a: "a \<in> set (map fst (take n s))"
      and b: "b \<in> set xs - set (map fst (take n s))"
    from a obtain ra where ra: "ra \<in> set (take n s)" "fst ra = a" by auto
    from b keys have "b \<in> set (map fst s)" by auto
    with b split have "b \<in> set (map fst (drop n s))"
      by (metis DiffD2 Un_iff set_append)
    then obtain rb where rb: "rb \<in> set (drop n s)" "fst rb = b" by auto
    from sorted ra(1) rb(1) have "snd rb \<le> snd ra"
      unfolding sorted_wrt_append by blast
    moreover have "ra \<in> set s" "rb \<in> set s"
      using ra(1) rb(1) by (auto dest: in_set_takeD in_set_dropD)
    ultimately show "count_list xs b \<le> count_list xs a"
      using cnt ra(2) rb(2) by auto
  qed
qed

subsection \<open>The pivot table\<close>

lemma filtered_counts_keys:
  "filtered_counts orgs (org_topic_counts pairs) =
     map (\<lambda>k. (k, count_list pairs k)) (kept_keys pairs orgs)"
  by (simp add: filtered_counts_def org_topic_counts_def kept_keys_def filter_map comp_def)

lemma kept_keys_set: "set (kept_keys pairs orgs) = {k \<in> set pairs. fst k \<in> set orgs}"
  by (auto simp: kept_keys_def)

lemma cell_of_count:
  "cell_of (filtered_counts orgs (org_topic_counts pairs)) org tp =
     (if org \<in> set orgs then count_list pairs (org, tp) else 0)"
proof -
  have "map_of (map (\<lambda>k. (k, count_list pairs k)) (kept_keys pairs orgs)) (org, tp) =
      (if (org, tp) \<in> set (kept_keys pairs orgs) then Some (count_list pairs (org, tp)) else None)"
    by (induction "kept_keys pairs orgs") (auto simp: map_of_map_restrict restrict_map_def)
  then show ?thesis
    by (auto simp: cell_of_def filtered_counts_keys kept_keys_set)
qed

lemma heatmap_index:
  "set (index (heatmap_table pairs orgs)) = fst ` {k \<in> set pairs. fst k \<in> set orgs}"
  "distinct (index (heatmap_table pairs orgs))"
  "sorted (index (heatmap_table pairs orgs))"
  by (simp_all add: heatmap_table_def pivot_table_def filtered_counts_keys kept_keys_set
      comp_def image_image)

lemma heatmap_columns:
  "set (columns (heatmap_table pairs orgs)) = snd ` {k \<in> set pairs. fst k \<in> set orgs}"
  "distinct (columns (heatmap_table pairs orgs))"
  "sorted (columns (heatmap_table pairs orgs))"
  by (simp_all add: heatmap_table_def pivot_table_def filtered_counts_keys kept_keys_set
      comp_def image_image)

lemma heatmap_cells:
  "cells (heatmap_table pairs orgs) =
     map (\<lambda>org. map (\<lambda>tp. cell_of (filtered_counts orgs (org_topic_counts pairs)) org tp)
                    (columns (heatmap_table pairs orgs)))
       (index (heatmap_table pairs orgs))"
  by (simp add: heatmap_table_def pivot_table_def)

lemma count_list_filter_fst:
  "count_list (filter (\<lambda>p. fst p \<in> A) pairs) k = (if fst k \<in> A then count_list pairs k else 0)"
  by (induction pairs) auto

lemma heatmap_sum:
  "sum_list (map sum_list (cells (heatmap_table pairs orgs))) =
     length (filter (\<lambda>p. fst p \<in> set orgs) pairs)"
proof -
  let ?I = "index (heatmap_table pairs orgs)"
  let ?C = "columns (heatmap_table pairs orgs)"
  let ?F = "filter (\<lambda>p. fst p \<in> set orgs) pairs"
  have in_orgs: "org \<in> set orgs" if "org \<in> set ?I" for org
    using that by (auto simp: heatmap_index(1))
  have "sum_list (map sum_list (cells (heatmap_table pairs orgs))) =
      (\<Sum>org\<leftarrow>?I. \<Sum>tp\<leftarrow>?C. cell_of (filtered_counts orgs (org_topic_counts pairs)) org tp)"
    by (simp add: heatmap_cells comp_def)
  also have "\<dots> = (\<Sum>org\<in>set ?I. \<Sum>tp\<in>set ?C.
      cell_of (filtered_counts orgs (org_topic_counts pairs)) org tp)"
    by (simp add: sum_list_distinct_conv_sum_set heatmap_index(2) heatmap_columns(2))
  also have "\<dots> = (\<Sum>org\<in>set ?I. \<Sum>tp\<in>set ?C. count_list ?F (org, tp))"
    by (rule sum.cong) (simp_all add: cell_of_count count_list_filter_fst in_orgs)
  also have "\<dots> = sum (count_list ?F) (set ?I \<times> set ?C)"
    by (simp add: sum.cartesian_product)
  also have "\<dots> = length ?F"
  proof (rule sum_count_set)
    show "set ?F \<subseteq> set ?I \<times> set ?C"
      by (auto simp: heatmap_index(1) heatmap_columns(1) intro: rev_image_eqI)
    show "finite (set ?I \<times> set ?C)" by simp
  qed
  finally show ?thesis .
qed

lemmas top_eval = top_orgs_def value_counts_def nlargest_def first_seen_top_def Counter_def
  sort_values_desc_def stable_sort_desc_def

lemmas table_eval = heatmap_table_def pivot_table_def filtered_counts_def org_topic_counts_def
  cell_of_def

section \<open>The coordinate parser is total\<close>

text \<open>
  Claim C1, as amended.  For every cell, text or not, \<^verbatim>\<open>extract_coordinates\<close> returns: it
  never raises.  What it returns is either \<^verbatim>\<open>(None, None)\<close>, the "no coordinate" result,
  or a pair of floats.  The floats need not be finite (see the counterexample below).
\<close>

theorem extract_coordinates_total:
  "extract_coordinates c = Inr (None, None) \<or>
   (\<exists>lat lon. extract_coordinates c = Inr (Some lat, Some lon))"
  by (rule extract_coordinates_returns)

theorem extract_coordinates_total_witness:
  "extract_coordinates (Str ''52.5, 13.4'') = Inr (Some (Finite (105 / 2)), Some (Finite (67 / 5)))"
  using extract_coordinates_total [of "Str ''52.5, 13.4''"]
  by (simp add: coord_eval float_eval)

text \<open>
  The claim as stated asks for a pair of finite numbers.  \<^verbatim>\<open>float\<close> accepts the words
  \<^verbatim>\<open>inf\<close> and \<^verbatim>\<open>nan\<close>, so the text \<^verbatim>\<open>inf, nan\<close> parses to a pair that is not finite.
\<close>

theorem extract_coordinates_not_finite:
  "extract_coordinates (Str ''inf, nan'') = Inr (Some PInf, Some NaN) \<and>
   \<not> is_finite PInf \<and> \<not> is_finite NaN"
  by (simp add: coord_eval float_eval)

section \<open>The cases of the coordinate parser\<close>

text \<open>
  Claim C7.  A cell that is not text, the sentinel \<^verbatim>\<open>N/A\<close> and a text without a comma give
  "no coordinate".  A text with a comma is decided by its first two comma-delimited parts
  \<open>p0\<close> and \<open>p1\<close>, whatever follows a second comma: when both parse as floats after trimming,
  the result is that pair, and when either fails the result is "no coordinate".  The three
  examples of the specification are the last conjuncts.
\<close>

theorem extract_coordinates_cases:
  "extract_coordinates NA = Inr (None, None) \<and>
   extract_coordinates (Num n) = Inr (None, None) \<and>
   extract_coordinates (Str ''N/A'') = Inr (None, None) \<and>
   (CHR '','' \<notin> set s \<longrightarrow> extract_coordinates (Str s) = Inr (None, None)) \<and>
   (CHR '','' \<notin> set p0 \<and> CHR '','' \<notin> set p1 \<and>
    (t = p0 @ '','' @ p1 \<or> t = p0 @ '','' @ p1 @ '','' @ rest) \<longrightarrow>
      extract_coordinates (Str t) =
        (case (py_float (strip p0), py_float (strip p1)) of
           (Inr lat, Inr lon) \<Rightarrow> Inr (Some lat, Some lon)
         | _ \<Rightarrow> Inr (None, None))) \<and>
   extract_coordinates (Str ''52.5, 13.4'') = Inr (Some (Finite (105 / 2)), Some (Finite (67 / 5))) \<and>
   extract_coordinates (Str ''abc, 13.4'') = Inr (None, None) \<and>
   extract_coordinates (Str ''52.5,13.4,extra'') =
     Inr (Some (Finite (105 / 2)), Some (Finite (67 / 5)))"
proof -
  have general: "extract_coordinates (Str t) =
        (case (py_float (strip p0), py_float (strip p1)) of
           (Inr lat, Inr lon) \<Rightarrow> Inr (Some lat, Some lon)
         | _ \<Rightarrow> Inr (None, None))"
    if "CHR '','' \<notin> set p0" "CHR '','' \<notin> set p1"
      "t = p0 @ '','' @ p1 \<or> t = p0 @ '','' @ p1 @ '','' @ rest"
  proof -
    from that(3) have "CHR '','' \<in> set t" by auto
    moreover from that have "\<exists>ps. split_on CHR '','' t = p0 # p1 # ps"
      using split_on_two [of "CHR '',''" p0 p1] split_on_more [of "CHR '',''" p0 p1 rest]
      by auto
    ultimately show ?thesis
      using extract_coordinates_parts by blast
  qed
  have e1: "extract_coordinates (Str ''52.5, 13.4'') =
      Inr (Some (Finite (105 / 2)), Some (Finite (67 / 5)))"
    by (simp add: coord_eval float_eval)
  have e2: "extract_coordinates (Str ''abc, 13.4'') = Inr (None, None)"
    by (simp add: coord_eval float_eval)
  have e3: "extract_coordinates (Str ''52.5,13.4,extra'') =
      Inr (Some (Finite (105 / 2)), Some (Finite (67 / 5)))"
    by (simp add: coord_eval float_eval)
  have none: "extract_coordinates (Str s) = Inr (None, None)" if "CHR '','' \<notin> set s"
    using that by (simp add: extract_coordinates_def)
  show ?thesis
    using general none e1 e2 e3 by (simp add: extract_coordinates_def)
qed

theorem extract_coordinates_cases_witness:
  "extract_coordinates (Str ''12'') = Inr (None, None) \<and>
   extract_coordinates (Str ''1.5,-2,x,y'') = Inr (Some (Finite (3 / 2)), Some (Finite (- 2))) \<and>
   extract_coordinates (Str ''1.5, two'') = Inr (None, None)"
  using extract_coordinates_cases [of 0 "''12''" "''1.5''" "''-2''" "''1.5,-2,x,y''" "''x,y''"]
    extract_coordinates_cases [of 0 "''12''" "''1.5''" "'' two''" "''1.5, two''" "''''"]
  by (simp add: float_eval)

section \<open>The location reconciler keeps the first occurrence of a name\<close>

text \<open>
  Claim C2.  The loop over the deduplicated sticker table never raises and yields a mapping
  with distinct names.  Its entries are those of the first rows of each name that resolve, in
  order of first appearance: a name maps to the coordinates of its first row when that row
  has a name and a coordinate field and its coordinate text parses, and is absent otherwise
  (later rows of the same name are discarded before their coordinates are looked at).  The
  last conjunct is the example of the specification.
\<close>

theorem unique_points_first_occurrence:
  "(\<exists>points. unique_points df = Inr points \<and> distinct (map fst points) \<and>
      points = entries (drop_duplicates sticker_location df) \<and>
      (\<forall>name. map_of points name =
         (case find (\<lambda>row. sticker_location row = name) df of
            None \<Rightarrow> None
          | Some row \<Rightarrow> resolved row))) \<and>
   unique_points
     [\<lparr>sticker_ID = Num 1, sticker_location = Str ''A'', sticker_location_coordinates = Str ''1,1''\<rparr>,
      \<lparr>sticker_ID = Num 2, sticker_location = Str ''A'', sticker_location_coordinates = Str ''2,2''\<rparr>,
      \<lparr>sticker_ID = Num 3, sticker_location = Str ''B'', sticker_location_coordinates = Str ''3,3''\<rparr>]
     = Inr [(Str ''A'', Finite 1, Finite 1), (Str ''B'', Finite 3, Finite 3)]"
proof -
  let ?rows = "drop_duplicates sticker_location df"
  have d: "distinct (map sticker_location ?rows)"
    by (rule drop_duplicates_distinct)
  have "map_of (entries ?rows) name =
      (case find (\<lambda>row. sticker_location row = name) df of
         None \<Rightarrow> None
       | Some row \<Rightarrow> resolved row)" for name
    using map_of_entries [OF d, of name] by (simp add: drop_duplicates_find)
  then have general: "\<exists>points. unique_points df = Inr points \<and> distinct (map fst points) \<and>
      points = entries (drop_duplicates sticker_location df) \<and>
      (\<forall>name. map_of points name =
         (case find (\<lambda>row. sticker_location row = name) df of
            None \<Rightarrow> None
          | Some row \<Rightarrow> resolved row))"
    using unique_points_entries [of df] distinct_entries [OF d] by simp
  have example: "unique_points
     [\<lparr>sticker_ID = Num 1, sticker_location = Str ''A'', sticker_location_coordinates = Str ''1,1''\<rparr>,
      \<lparr>sticker_ID = Num 2, sticker_location = Str ''A'', sticker_location_coordinates = Str ''2,2''\<rparr>,
      \<lparr>sticker_ID = Num 3, sticker_location = Str ''B'', sticker_location_coordinates = Str ''3,3''\<rparr>]
     = Inr [(Str ''A'', Finite 1, Finite 1), (Str ''B'', Finite 3, Finite 3)]"
    by (simp add: points_eval coord_eval float_eval)
  from general example show ?thesis by blast
qed

theorem unique_points_first_occurrence_witness:
  "\<exists>points.
     unique_points
       [\<lparr>sticker_ID = Num 1, sticker_location = Str ''A'', sticker_location_coordinates = Str ''north''\<rparr>,
        \<lparr>sticker_ID = Num 2, sticker_location = Str ''A'', sticker_location_coordinates = Str ''2,2''\<rparr>,
        \<lparr>sticker_ID = Num 3, sticker_location = NA, sticker_location_coordinates = Str ''4,4''\<rparr>,
        \<lparr>sticker_ID = Num 4, sticker_location = Str ''B'', sticker_location_coordinates = Str ''3,3''\<rparr>]
       = Inr points \<and>
     map_of points (Str ''A'') = None \<and> map_of points NA = None \<and>
     map_of points (Str ''B'') = Some (Finite 3, Finite 3)"
proof -
  let ?df = "[\<lparr>sticker_ID = Num 1, sticker_location = Str ''A'', sticker_location_coordinates = Str ''north''\<rparr>,
        \<lparr>sticker_ID = Num 2, sticker_location = Str ''A'', sticker_location_coordinates = Str ''2,2''\<rparr>,
        \<lparr>sticker_ID = Num 3, sticker_location = NA, sticker_location_coordinates = Str ''4,4''\<rparr>,
        \<lparr>sticker_ID = Num 4, sticker_location = Str ''B'', sticker_location_coordinates = Str ''3,3''\<rparr>]"
  from unique_points_first_occurrence [of ?df]
  obtain points where p: "unique_points ?df = Inr points"
    and m: "\<And>name. map_of points name =
         (case find (\<lambda>row. sticker_location row = name) ?df of
            None \<Rightarrow> None
          | Some row \<Rightarrow> resolved row)"
    by blast
  have "map_of points (Str ''A'') = None"
    unfolding m by (simp add: resolved_def coord_eval float_eval)
  moreover have "map_of points NA = None"
    unfolding m by (simp add: resolved_def)
  moreover have "map_of points (Str ''B'') = Some (Finite 3, Finite 3)"
    unfolding m by (simp add: resolved_def coord_eval float_eval)
  ultimately show ?thesis using p by blast
qed

section \<open>The link resolver emits one connection per linked pair\<close>

text \<open>
  Claim C4.  The connections are, in order, the connections of the pairs of a sticker row
  and an organization record (an item of \<^verbatim>\<open>org_points\<close>) that are linked: the record's
  linking identifier equals the row's and the row's location name is in the location
  mapping.  Every such pair gives one connection and nothing is deduplicated, so the number
  of connections is the number of linked pairs.
\<close>

theorem find_connections_pairs:
  "find_connections sticker_df points orgs [] =
     map (connection_of points) (filter (linked points) (List.product sticker_df orgs)) \<and>
   length (find_connections sticker_df points orgs []) =
     length (filter (linked points) (List.product sticker_df orgs))"
  by (simp add: find_connections_product)

theorem find_connections_pairs_witness:
  "length (find_connections
     [\<lparr>sticker_ID = Num 1, sticker_location = Str ''A'', sticker_location_coordinates = Str ''1,1''\<rparr>,
      \<lparr>sticker_ID = Num 1, sticker_location = Str ''C'', sticker_location_coordinates = Str ''x''\<rparr>,
      \<lparr>sticker_ID = NA, sticker_location = Str ''A'', sticker_location_coordinates = Str ''1,1''\<rparr>]
     [(Str ''A'', Finite 1, Finite 1)]
     [(''O1_1'', \<lparr>d_coords = (Finite 5, Finite 5), d_org_name = ''O1'', d_sticker_id = Num 1, d_topic = ''t''\<rparr>),
      (''O2_1'', \<lparr>d_coords = (Finite 6, Finite 6), d_org_name = ''O2'', d_sticker_id = Num 1, d_topic = ''u''\<rparr>),
      (''O3_nan'', \<lparr>d_coords = (Finite 6, Finite 6), d_org_name = ''O3'', d_sticker_id = NA, d_topic = ''u''\<rparr>),
      (''O4_2'', \<lparr>d_coords = (Finite 7, Finite 7), d_org_name = ''O4'', d_sticker_id = Num 2, d_topic = ''u''\<rparr>)]
     []) = 2"
  using find_connections_pairs [of
     "[\<lparr>sticker_ID = Num 1, sticker_location = Str ''A'', sticker_location_coordinates = Str ''1,1''\<rparr>,
      \<lparr>sticker_ID = Num 1, sticker_location = Str ''C'', sticker_location_coordinates = Str ''x''\<rparr>,
      \<lparr>sticker_ID = NA, sticker_location = Str ''A'', sticker_location_coordinates = Str ''1,1''\<rparr>]"
     "[(Str ''A'', Finite 1, Finite 1)]"
     "[(''O1_1'', \<lparr>d_coords = (Finite 5, Finite 5), d_org_name = ''O1'', d_sticker_id = Num 1, d_topic = ''t''\<rparr>),
      (''O2_1'', \<lparr>d_coords = (Finite 6, Finite 6), d_org_name = ''O2'', d_sticker_id = Num 1, d_topic = ''u''\<rparr>),
      (''O3_nan'', \<lparr>d_coords = (Finite 6, Finite 6), d_org_name = ''O3'', d_sticker_id = NA, d_topic = ''u''\<rparr>),
      (''O4_2'', \<lparr>d_coords = (Finite 7, Finite 7), d_org_name = ''O4'', d_sticker_id = Num 2, d_topic = ''u''\<rparr>)]"]
  by (simp add: linked_def py_eq_def)

section \<open>Organization rows: dropped without coordinates, kept without a name\<close>

text \<open>
  Claim C8.  One iteration of the loop over the general table leaves \<^verbatim>\<open>org_points\<close>
  unchanged, without an error, when the coordinate field is missing, is \<^verbatim>\<open>N/A\<close> or does not
  parse.  When the coordinates resolve it stores a record under the row's key, whether or not
  organization name and topic are present: a missing one is replaced by \<^verbatim>\<open>Unknown\<close>.  The
  whole loop never raises; its keys are the keys of the rows that resolve, and each key holds
  the record of the last such row.
\<close>

theorem add_org_keeps_or_drops:
  "(organization_location_coordinates row = NA
      \<or> organization_location_coordinates row = Str ''N/A''
      \<or> extract_coordinates (organization_location_coordinates row) = Inr (None, None)
    \<longrightarrow> add_org row orgs = Inr orgs) \<and>
   (organization_location_coordinates row \<noteq> NA
      \<and> organization_location_coordinates row \<noteq> Str ''N/A''
      \<and> extract_coordinates (organization_location_coordinates row) = Inr (Some lat, Some lon)
    \<longrightarrow> add_org row orgs =
         Inr (AList.update (org_key_of row)
           \<lparr>d_coords = (lat, lon),
            d_org_name = (if organization row = NA then ''Unknown'' else py_str (organization row)),
            d_sticker_id = sticker_id row,
            d_topic = (if topic row = NA then ''Unknown'' else py_str (topic row))\<rparr> orgs)) \<and>
   (\<exists>result. org_points general_df = Inr result \<and>
      fst ` set result = org_key_of ` {r \<in> set general_df. org_resolved r \<noteq> None} \<and>
      (\<forall>key. map_of result key =
         (case find (\<lambda>r. org_key_of r = key \<and> org_resolved r \<noteq> None) (rev general_df) of
            None \<Rightarrow> None
          | Some r \<Rightarrow> Some (org_record r (the (org_resolved r))))))"
proof -
  have dropped: "add_org row orgs = Inr orgs"
    if "organization_location_coordinates row = NA
      \<or> organization_location_coordinates row = Str ''N/A''
      \<or> extract_coordinates (organization_location_coordinates row) = Inr (None, None)"
    using that by (auto simp: add_org_resolved org_resolved_def)
  have kept: "add_org row orgs =
         Inr (AList.update (org_key_of row)
           \<lparr>d_coords = (lat, lon),
            d_org_name = (if organization row = NA then ''Unknown'' else py_str (organization row)),
            d_sticker_id = sticker_id row,
            d_topic = (if topic row = NA then ''Unknown'' else py_str (topic row))\<rparr> orgs)"
    if "organization_location_coordinates row \<noteq> NA"
      "organization_location_coordinates row \<noteq> Str ''N/A''"
      "extract_coordinates (organization_location_coordinates row) = Inr (Some lat, Some lon)"
    using that
    by (simp add: add_org_resolved org_resolved_def org_record_def org_name_of_def topic_of_def notna_def)
  have loop: "\<exists>result. org_points general_df = Inr result \<and>
      fst ` set result = org_key_of ` {r \<in> set general_df. org_resolved r \<noteq> None} \<and>
      (\<forall>key. map_of result key =
         (case find (\<lambda>r. org_key_of r = key \<and> org_resolved r \<noteq> None) (rev general_df) of
            None \<Rightarrow> None
          | Some r \<Rightarrow> Some (org_record r (the (org_resolved r)))))"
    using add_orgs_map_of [of general_df "[]"] unfolding org_points_def
    by (simp cong: option.case_cong)
  from dropped kept loop show ?thesis by blast
qed

theorem add_org_keeps_or_drops_witness:
  "add_org \<lparr>organization = Str ''O1'', topic = Str ''t'', sticker_id = Num 5,
            organization_location_coordinates = NA\<rparr> [] = Inr [] \<and>
   add_org \<lparr>organization = NA, topic = NA, sticker_id = Num 5,
            organization_location_coordinates = Str ''52.5, 13.4''\<rparr> [] =
     Inr [(''Unknown_5'',
           \<lparr>d_coords = (Finite (105 / 2), Finite (67 / 5)), d_org_name = ''Unknown'',
            d_sticker_id = Num 5, d_topic = ''Unknown''\<rparr>)]"
  using
    add_org_keeps_or_drops [of
      "\<lparr>organization = Str ''O1'', topic = Str ''t'', sticker_id = Num 5,
        organization_location_coordinates = NA\<rparr>" "[]" "Finite 0" "Finite 0" "[]"]
    add_org_keeps_or_drops [of
      "\<lparr>organization = NA, topic = NA, sticker_id = Num 5,
        organization_location_coordinates = Str ''52.5, 13.4''\<rparr>" "[]"
      "Finite (105 / 2)" "Finite (67 / 5)" "[]"]
  by (simp add: coord_eval float_eval org_key_of_def org_name_of_def str_int_def notna_def)

section \<open>The map center divides by zero when nothing resolves\<close>

text \<open>
  Claim C10.  The map center is the pair of the arithmetic means of all latitudes and of all
  longitudes in \<^verbatim>\<open>sticker_points\<close> and \<^verbatim>\<open>org_points\<close>: their sum divided by their number.
  With both empty the division is \<^verbatim>\<open>0 / 0\<close> and raises \<^verbatim>\<open>ZeroDivisionError\<close>.  So when
  folium is installed and no sticker row and no organization row resolves,
  \<^verbatim>\<open>create_expanded_map\<close> raises instead of returning \<^verbatim>\<open>False\<close>, having printed and saved
  nothing; and it returns \<^verbatim>\<open>True\<close> only when some row resolves.
\<close>

theorem create_expanded_map_center:
  "map_center points orgs =
     (if points = [] \<and> orgs = [] then Inl ZeroDivisionError
      else Inr (fdiv_nat (py_sum (all_lats points orgs)) (length points + length orgs),
                fdiv_nat (py_sum (all_lons points orgs)) (length points + length orgs))) \<and>
   (folium_installed e \<and> (\<forall>row \<in> set sticker_df. resolved row = None)
      \<and> (\<forall>row \<in> set general_df. org_resolved row = None) \<longrightarrow>
    create_expanded_map e sticker_df general_df w = (Inl ZeroDivisionError, w)) \<and>
   (fst (create_expanded_map e sticker_df general_df w) = Inr True \<longrightarrow>
    (\<exists>row \<in> set sticker_df. resolved row \<noteq> None)
      \<or> (\<exists>row \<in> set general_df. org_resolved row \<noteq> None))"
proof -
  have raises: "create_expanded_map e sticker_df general_df w = (Inl ZeroDivisionError, w)"
    if "folium_installed e" "\<forall>row \<in> set sticker_df. resolved row = None"
      "\<forall>row \<in> set general_df. org_resolved row = None"
    using that unique_points_none [of sticker_df] org_points_none [of general_df]
    by (simp add: create_expanded_map_def run_defs map_center_mean)
  have needed: "(\<exists>row \<in> set sticker_df. resolved row \<noteq> None)
      \<or> (\<exists>row \<in> set general_df. org_resolved row \<noteq> None)"
    if t: "fst (create_expanded_map e sticker_df general_df w) = Inr True"
  proof (rule ccontr)
    assume "\<not> ?thesis"
    then have none: "\<forall>row \<in> set sticker_df. resolved row = None"
      "\<forall>row \<in> set general_df. org_resolved row = None"
      by blast+
    show False
    proof (cases "folium_installed e")
      case True
      with raises none t show False by simp
    next
      case False
      then have "fst (create_expanded_map e sticker_df general_df w) = Inr False"
        by (simp add: create_expanded_map_def run_defs)
      with t show False by simp
    qed
  qed
  from raises needed map_center_mean [of points orgs] show ?thesis by blast
qed


theorem create_expanded_map_center_witness:
  "create_expanded_map
     \<lparr>contextily_installed = True, folium_installed = True, wordcloud_installed = True,
      basemap_plot = None, basic_plot = None, folium_calls = None, bar_chart_calls = None,
      pie_chart_calls = None, wordcloud_calls = None, heatmap_calls = None\<rparr>
     [\<lparr>sticker_ID = Num 1, sticker_location = Str ''A'', sticker_location_coordinates = Str ''north''\<rparr>]
     [\<lparr>organization = Str ''O'', topic = Str ''t'', sticker_id = Num 1,
       organization_location_coordinates = NA\<rparr>]
     \<lparr>printed = [], saved = []\<rparr>
   = (Inl ZeroDivisionError, \<lparr>printed = [], saved = []\<rparr>) \<and>
   map_center [(Str ''A'', Finite 1, Finite 3), (Str ''B'', Finite 2, Finite 4)] [] =
     Inr (Finite (3 / 2), Finite (7 / 2))"
  using create_expanded_map_center [of
     "[(Str ''A'', Finite 1, Finite 3), (Str ''B'', Finite 2, Finite 4)]" "[]"
     "\<lparr>contextily_installed = True, folium_installed = True, wordcloud_installed = True,
      basemap_plot = None, basic_plot = None, folium_calls = None, bar_chart_calls = None,
      pie_chart_calls = None, wordcloud_calls = None, heatmap_calls = None\<rparr>"
     "[\<lparr>sticker_ID = Num 1, sticker_location = Str ''A'', sticker_location_coordinates = Str ''north''\<rparr>]"
     "[\<lparr>organization = Str ''O'', topic = Str ''t'', sticker_id = Num 1,
       organization_location_coordinates = NA\<rparr>]"
     "\<lparr>printed = [], saved = []\<rparr>"]
  by (simp add: resolved_def org_resolved_def coord_eval float_eval all_lats_def all_lons_def
      py_sum_def)

section \<open>The pie chart groups rare topics as Other\<close>

text \<open>
  Claim C5.  With the threshold 3, the table of the pie chart keeps the rows with a count of
  at least 3 unchanged and in order.  When some row has a count below 3, one row
  \<^verbatim>\<open>Other\<close> with the sum of those counts is appended as the last row; when no row has, the
  table is the input unchanged and no row is added.  The last two conjuncts are the
  examples of the specification.
\<close>

theorem pie_df_other:
  "pie_df topic_df =
     (if \<exists>r \<in> set topic_df. snd r < 3 then
        filter (\<lambda>r. 3 \<le> snd r) topic_df
          @ [(''Other'', sum_list (map snd (filter (\<lambda>r. snd r < 3) topic_df)))]
      else topic_df) \<and>
   ((\<exists>r \<in> set topic_df. snd r < 3) \<longrightarrow>
      last (pie_df topic_df) = (''Other'', sum_list (map snd (filter (\<lambda>r. snd r < 3) topic_df)))
      \<and> butlast (pie_df topic_df) = filter (\<lambda>r. 3 \<le> snd r) topic_df) \<and>
   ((\<forall>r \<in> set topic_df. 3 \<le> snd r) \<longrightarrow> pie_df topic_df = topic_df) \<and>
   pie_df [(''a'', 5), (''b'', 2), (''c'', 1)] = [(''a'', 5), (''Other'', 3)] \<and>
   pie_df [(''a'', 5), (''b'', 4)] = [(''a'', 5), (''b'', 4)]"
proof -
  have g: "(to_group topic_df \<noteq> []) = (\<exists>r \<in> set topic_df. snd r < 3)"
    by (auto simp: to_group_def threshold_def filter_empty_conv)
  have main: "pie_df topic_df =
     (if \<exists>r \<in> set topic_df. snd r < 3 then
        filter (\<lambda>r. 3 \<le> snd r) topic_df
          @ [(''Other'', sum_list (map snd (filter (\<lambda>r. snd r < 3) topic_df)))]
      else topic_df)"
    unfolding pie_df_def g by (simp add: to_group_def threshold_def)
  have none: "pie_df topic_df = topic_df" if "\<forall>r \<in> set topic_df. 3 \<le> snd r"
  proof -
    from that have "\<not> (\<exists>r \<in> set topic_df. snd r < 3)" by auto
    with main show ?thesis by simp
  qed
  have e1: "pie_df [(''a'', 5), (''b'', 2), (''c'', 1)] = [(''a'', 5), (''Other'', 3)]"
    by (simp add: pie_df_def to_group_def threshold_def)
  have e2: "pie_df [(''a'', 5), (''b'', 4)] = [(''a'', 5), (''b'', 4)]"
    by (simp add: pie_df_def to_group_def threshold_def)
  from main none e1 e2 show ?thesis by simp
qed

theorem pie_df_other_witness:
  "pie_df [(''x'', 1), (''y'', 7), (''z'', 2), (''w'', 3)] = [(''y'', 7), (''w'', 3), (''Other'', 3)] \<and>
   pie_df [(''y'', 7), (''w'', 3)] = [(''y'', 7), (''w'', 3)]"
  using pie_df_other [of "[(''x'', 1), (''y'', 7), (''z'', 2), (''w'', 3)]"]
    pie_df_other [of "[(''y'', 7), (''w'', 3)]"]
  by simp

section \<open>Topic counts are sorted descending; ties are left to the library\<close>

text \<open>
  Claim C3, as amended.  For every cleaned sequence of topics the analysis has a result, and
  every result it may give is sorted descending by count and holds each distinct topic once,
  with the number of its occurrences.  The code asks for no stable sort, so the order of
  topics with equal counts is not fixed by it; where the counts are pairwise distinct the
  result is the one descending order.  The last conjunct is the example of the
  specification, whose counts are distinct.
\<close>

theorem topic_frequencies_sorted:
  "topic_frequencies topics (stable_sort_desc (Counter topics)) \<and>
   (topic_frequencies topics out \<longrightarrow>
      sorted_wrt (\<lambda>a b. snd b \<le> snd a) out \<and> distinct (map fst out) \<and>
      fst ` set out = set topics \<and>
      (\<forall>r \<in> set out. snd r = count_list topics (fst r)) \<and>
      (distinct (map snd out) \<longrightarrow> out = stable_sort_desc (Counter topics))) \<and>
   (topic_frequencies [''x'', ''y'', ''x'', ''z'', ''y'', ''x''] res \<longleftrightarrow>
      res = [(''x'', 3), (''y'', 2), (''z'', 1)])"
proof -
  have admitted: "topic_frequencies ts (stable_sort_desc (Counter ts))" for ts :: "string list"
    by (simp add: topic_frequencies_def stable_sort_desc_admitted)
  have props: "sorted_wrt (\<lambda>a b. snd b \<le> snd a) out \<and> distinct (map fst out) \<and>
      fst ` set out = set topics \<and>
      (\<forall>r \<in> set out. snd r = count_list topics (fst r)) \<and>
      (distinct (map snd out) \<longrightarrow> out = stable_sort_desc (Counter topics))"
    if t: "topic_frequencies topics out"
  proof -
    from t have s: "sort_values_desc (Counter topics) out"
      by (simp add: topic_frequencies_def)
    then have set_eq: "set out = set (Counter topics)"
      by (rule sort_values_desc_set)
    have "sorted_wrt (\<lambda>a b. snd b \<le> snd a) out"
      using s by (simp add: sort_values_desc_def)
    moreover have "distinct (map fst out)"
      using sort_values_desc_keys [OF s] Counter_distinct [of topics] by simp
    moreover have "fst ` set out = set topics"
      using set_eq Counter_keys [of topics] by simp
    moreover have "\<forall>r \<in> set out. snd r = count_list topics (fst r)"
      using set_eq Counter_count [of _ _ topics] by auto
    moreover have "out = stable_sort_desc (Counter topics)" if "distinct (map snd out)"
    proof -
      have "mset (map snd out) = mset (map snd (Counter topics))"
        using s by (simp add: sort_values_desc_def)
      then have "distinct (map snd (Counter topics))"
        using that mset_eq_imp_distinct_iff by blast
      with s show ?thesis by (rule sort_values_desc_unique)
    qed
    ultimately show ?thesis by blast
  qed
  have c: "Counter [''x'', ''y'', ''x'', ''z'', ''y'', ''x''] = [(''x'', 3), (''y'', 2), (''z'', 1)]"
    by (simp add: Counter_def)
  have example: "topic_frequencies [''x'', ''y'', ''x'', ''z'', ''y'', ''x''] res \<longleftrightarrow>
      res = [(''x'', 3), (''y'', 2), (''z'', 1)]"
  proof
    assume "topic_frequencies [''x'', ''y'', ''x'', ''z'', ''y'', ''x''] res"
    then have "sort_values_desc [(''x'', 3), (''y'', 2), (''z'', 1)] res"
      by (simp add: topic_frequencies_def c)
    then have "res = stable_sort_desc [(''x'', 3), (''y'', 2), (''z'', 1)]"
      by (rule sort_values_desc_unique) simp
    then show "res = [(''x'', 3), (''y'', 2), (''z'', 1)]"
      by (simp add: stable_sort_desc_def)
  next
    assume "res = [(''x'', 3), (''y'', 2), (''z'', 1)]"
    then show "topic_frequencies [''x'', ''y'', ''x'', ''z'', ''y'', ''x''] res"
      by (simp add: topic_frequencies_def c sort_values_desc_def)
  qed
  from admitted props example show ?thesis by blast
qed

theorem topic_frequencies_sorted_witness:
  "topic_frequencies [''b'', ''a'', ''b'', ''c''] [(''b'', 2), (''c'', 1), (''a'', 1)] \<and>
   sorted_wrt (\<lambda>a b. snd b \<le> snd a) [(''b'', 2 :: nat), (''c'', 1), (''a'', 1)] \<and>
   fst ` set [(''b'', 2 :: nat), (''c'', 1), (''a'', 1)] = set [''b'', ''a'', ''b'', ''c'']"
proof -
  have t: "topic_frequencies [''b'', ''a'', ''b'', ''c''] [(''b'', 2), (''c'', 1), (''a'', 1)]"
    by (simp add: count_eval)
  with topic_frequencies_sorted [of "[''b'', ''a'', ''b'', ''c'']" "[(''b'', 2), (''c'', 1), (''a'', 1)]"]
  show ?thesis by blast
qed

text \<open>
  The claim as stated asks for the first-seen order among equal counts.  For eighteen
  topics that occur once each, a rearrangement that is not the first-seen order is a
  result the default sort may give (it is the order an introsort with median-of-three
  partitioning leaves, applied as pandas applies it for a descending sort).
\<close>

theorem topic_frequencies_unstable:
  "topic_frequencies
     [''a'', ''b'', ''c'', ''d'', ''e'', ''f'', ''g'', ''h'', ''i'', ''j'',
      ''k'', ''l'', ''m'', ''n'', ''o'', ''p'', ''q'', ''r'']
     [(''a'', 1 :: nat), (''b'', 1), (''q'', 1), (''p'', 1), (''o'', 1), (''n'', 1),
      (''m'', 1), (''l'', 1), (''k'', 1), (''j'', 1), (''i'', 1), (''h'', 1),
      (''g'', 1), (''f'', 1), (''e'', 1), (''d'', 1), (''c'', 1), (''r'', 1)] \<and>
   stable_sort_desc (Counter
     [''a'', ''b'', ''c'', ''d'', ''e'', ''f'', ''g'', ''h'', ''i'', ''j'',
      ''k'', ''l'', ''m'', ''n'', ''o'', ''p'', ''q'', ''r'']) =
     [(''a'', 1), (''b'', 1), (''c'', 1), (''d'', 1), (''e'', 1), (''f'', 1),
      (''g'', 1), (''h'', 1), (''i'', 1), (''j'', 1), (''k'', 1), (''l'', 1),
      (''m'', 1), (''n'', 1), (''o'', 1), (''p'', 1), (''q'', 1), (''r'', 1)] \<and>
   [(''a'', 1), (''b'', 1), (''q'', 1), (''p'', 1), (''o'', 1), (''n'', 1),
    (''m'', 1), (''l'', 1), (''k'', 1), (''j'', 1), (''i'', 1), (''h'', 1),
    (''g'', 1), (''f'', 1), (''e'', 1), (''d'', 1), (''c'', 1), (''r'', 1)] \<noteq>
   [(''a'', 1), (''b'', 1), (''c'', 1), (''d'', 1), (''e'', 1), (''f'', 1),
    (''g'', 1), (''h'', 1), (''i'', 1), (''j'', 1), (''k'', 1), (''l'', 1),
    (''m'', 1), (''n'', 1), (''o'', 1), (''p'', 1), (''q'', 1), (''r'', 1)]"
  by (simp add: count_eval)

section \<open>The heatmap table of the top organizations\<close>

text \<open>
  Claim C6, as amended.  Some selection of top organizations always exists (the first-seen
  one is among those the code may make).  Every selection the code may make holds 10
  distinct organizations of the pairs, or all of them when there are fewer, and no
  organization left out has a larger total than one selected.  The table has one row for
  each selected organization and for no other, a column for each topic that occurs with a
  selected organization, and in each cell the number of occurrences of its pair, 0 where the
  pair does not occur; its cells sum to the number of pairs of the selected organizations.
  Which of several organizations with equal totals at the cutoff are selected is left to the
  default sort of the library.
\<close>

theorem heatmap_table_top_orgs:
  "top_orgs pairs (stable_sort_desc (Counter (map fst pairs)))
     (take 10 (stable_sort_desc (Counter (map fst pairs)))) (first_seen_top 10 (map fst pairs)) \<and>
   (top_orgs pairs counts largest orgs \<longrightarrow>
      distinct orgs \<and> set orgs \<subseteq> fst ` set pairs \<and>
      length orgs = min 10 (card (fst ` set pairs)) \<and>
      (\<forall>a \<in> set orgs. \<forall>b \<in> fst ` set pairs - set orgs.
         count_list (map fst pairs) b \<le> count_list (map fst pairs) a) \<and>
      set (index (heatmap_table pairs orgs)) = set orgs \<and>
      set (columns (heatmap_table pairs orgs)) = snd ` {p \<in> set pairs. fst p \<in> set orgs} \<and>
      cells (heatmap_table pairs orgs) =
        map (\<lambda>org. map (\<lambda>tp. count_list pairs (org, tp)) (columns (heatmap_table pairs orgs)))
          (index (heatmap_table pairs orgs)) \<and>
      sum_list (map sum_list (cells (heatmap_table pairs orgs))) =
        length (filter (\<lambda>p. fst p \<in> set orgs) pairs))"
proof -
  have sel: "distinct orgs \<and> set orgs \<subseteq> fst ` set pairs \<and>
      length orgs = min 10 (card (fst ` set pairs)) \<and>
      (\<forall>a \<in> set orgs. \<forall>b \<in> fst ` set pairs - set orgs.
         count_list (map fst pairs) b \<le> count_list (map fst pairs) a) \<and>
      set (index (heatmap_table pairs orgs)) = set orgs \<and>
      set (columns (heatmap_table pairs orgs)) = snd ` {p \<in> set pairs. fst p \<in> set orgs} \<and>
      cells (heatmap_table pairs orgs) =
        map (\<lambda>org. map (\<lambda>tp. count_list pairs (org, tp)) (columns (heatmap_table pairs orgs)))
          (index (heatmap_table pairs orgs)) \<and>
      sum_list (map sum_list (cells (heatmap_table pairs orgs))) =
        length (filter (\<lambda>p. fst p \<in> set orgs) pairs)"
    if t: "top_orgs pairs counts largest orgs"
  proof -
    from top_orgs_take [OF t] obtain s where
      s: "sort_values_desc (Counter (map fst pairs)) s" and o: "orgs = map fst (take 10 s)"
      by blast
    have d: "distinct orgs"
      unfolding o using s by (rule take_largest(1))
    have sub: "set orgs \<subseteq> fst ` set pairs"
      unfolding o using take_largest(2) [OF s, of 10] by simp
    have len: "length orgs = min 10 (card (fst ` set pairs))"
      unfolding o using take_largest(3) [OF s, of 10] by simp
    have big: "\<forall>a \<in> set orgs. \<forall>b \<in> fst ` set pairs - set orgs.
         count_list (map fst pairs) b \<le> count_list (map fst pairs) a"
      unfolding o using take_largest(4) [OF s, of 10] by simp
    have idx: "set (index (heatmap_table pairs orgs)) = set orgs"
      using sub by (auto simp: heatmap_index(1) intro: rev_image_eqI)
    have cs: "cells (heatmap_table pairs orgs) =
        map (\<lambda>org. map (\<lambda>tp. count_list pairs (org, tp)) (columns (heatmap_table pairs orgs)))
          (index (heatmap_table pairs orgs))"
      unfolding heatmap_cells using idx by (simp add: cell_of_count)
    from d sub len big idx cs heatmap_columns(1) [of pairs orgs] heatmap_sum [of pairs orgs]
    show ?thesis by blast
  qed
  from sel first_seen_top_admitted [of pairs] show ?thesis by blast
qed


theorem heatmap_table_top_orgs_witness:
  "top_orgs [(''b'', ''t''), (''a'', ''u''), (''b'', ''t''), (''b'', ''v'')]
     [(''b'', 3), (''a'', 1)] [(''b'', 3), (''a'', 1)] [''b'', ''a''] \<and>
   set (index (heatmap_table [(''b'', ''t''), (''a'', ''u''), (''b'', ''t''), (''b'', ''v'')]
     [''b'', ''a''])) = set [''b'', ''a''] \<and>
   sum_list (map sum_list (cells (heatmap_table
     [(''b'', ''t''), (''a'', ''u''), (''b'', ''t''), (''b'', ''v'')] [''b'', ''a'']))) = 4"
proof -
  have t: "top_orgs [(''b'', ''t''), (''a'', ''u''), (''b'', ''t''), (''b'', ''v'')]
     [(''b'', 3), (''a'', 1)] [(''b'', 3), (''a'', 1)] [''b'', ''a'']"
    by (simp add: top_eval)
  let ?pairs = "[(''b'', ''t''), (''a'', ''u''), (''b'', ''t''), (''b'', ''v'')]"
  from t heatmap_table_top_orgs [of ?pairs "[(''b'', 3), (''a'', 1)]" "[(''b'', 3), (''a'', 1)]"
      "[''b'', ''a'']"]
  have i: "set (index (heatmap_table ?pairs [''b'', ''a''])) = set [''b'', ''a'']"
    and c: "sum_list (map sum_list (cells (heatmap_table ?pairs [''b'', ''a'']))) =
      length (filter (\<lambda>p. fst p \<in> set [''b'', ''a'']) ?pairs)"
    by blast+
  have "length (filter (\<lambda>p. fst p \<in> set [''b'', ''a'']) ?pairs) = 4"
    by simp
  with t i c show ?thesis by simp
qed

text \<open>
  The claim as stated breaks ties by first-seen order.  For eighteen organizations with
  one pair each, the counts in an order the default sort may leave give a selection that
  is not the first ten seen: the third organization seen is not selected.
\<close>

theorem top_orgs_not_first_seen:
  "top_orgs
     [(''a'', ''t''), (''b'', ''t''), (''c'', ''t''), (''d'', ''t''),
      (''e'', ''t''), (''f'', ''t''), (''g'', ''t''), (''h'', ''t''),
      (''i'', ''t''), (''j'', ''t''), (''k'', ''t''), (''l'', ''t''),
      (''m'', ''t''), (''n'', ''t''), (''o'', ''t''), (''p'', ''t''),
      (''q'', ''t''), (''r'', ''t'')]
     [(''a'', 1), (''b'', 1), (''q'', 1), (''p'', 1), (''o'', 1), (''n'', 1),
      (''m'', 1), (''l'', 1), (''k'', 1), (''j'', 1), (''i'', 1), (''h'', 1),
      (''g'', 1), (''f'', 1), (''e'', 1), (''d'', 1), (''c'', 1), (''r'', 1)]
     [(''a'', 1), (''b'', 1), (''q'', 1), (''p'', 1), (''o'', 1), (''n'', 1),
      (''m'', 1), (''l'', 1), (''k'', 1), (''j'', 1)]
     [''a'', ''b'', ''q'', ''p'', ''o'', ''n'', ''m'', ''l'', ''k'', ''j''] \<and>
   first_seen_top 10
     [''a'', ''b'', ''c'', ''d'', ''e'', ''f'', ''g'', ''h'', ''i'', ''j'',
      ''k'', ''l'', ''m'', ''n'', ''o'', ''p'', ''q'', ''r''] =
     [''a'', ''b'', ''c'', ''d'', ''e'', ''f'', ''g'', ''h'', ''i'', ''j''] \<and>
   ''c'' \<notin> set
     [''a'', ''b'', ''q'', ''p'', ''o'', ''n'', ''m'', ''l'', ''k'', ''j'']"
  by (simp add: top_eval)


end
